theory Spec2Isabelle
  imports Complex_Main "HOL-Library.AList"
begin

section \<open>Python values\<close>

text \<open>
  The bot is a Python program (\<^verbatim>\<open>main.py\<close>) that moves JSON documents between a language
  model, a JSON file and Telegram. The embedding keeps Python's dynamic typing: every value
  that comes out of \<^verbatim>\<open>json.loads\<close> or \<^verbatim>\<open>json.load\<close> is a \<open>json\<close>, and an operation applied
  to a value of the wrong shape raises, as it does in Python.

  A Python \<^verbatim>\<open>str\<close> is modelled by its UTF-8 encoding, one \<open>char\<close> per byte. The literals of
  \<^verbatim>\<open>main.py\<close> are taken byte for byte from the file. A \<^verbatim>\<open>dict\<close> is an association list in
  insertion order; the first binding of a key is the one that counts.
\<close>

datatype pyexn =
    TypeError | ValueError | AttributeError | IndexError | OverflowError
  | FileNotFoundError | PermissionError | UnicodeDecodeError | JSONDecodeError
  | ApiTelegramException | GeminiError | DownloadError | OSError

text \<open>
  A Python \<^verbatim>\<open>float\<close>: a finite double, given by the rational number it denotes, or one of
  the three special values (\<^verbatim>\<open>json.loads\<close> accepts \<^verbatim>\<open>Infinity\<close>, \<^verbatim>\<open>-Infinity\<close>, \<^verbatim>\<open>NaN\<close>).
\<close>

datatype pyfloat = Finite rat | PosInf | NegInf | NaN

datatype json =
    JNull
  | JBool bool
  | JInt int
  | JFloat pyfloat
  | JStr string
  | JList "json list"
  | JDict "(string \<times> json) list"

text \<open>
  Built-in functions of the interpreter and of the \<^verbatim>\<open>json\<close> module whose full definition is
  not part of the repository are parameters of the model:
  \<^item> \<open>float_of_str\<close>: \<^verbatim>\<open>float(s)\<close> for a \<^verbatim>\<open>str\<close> (\<open>None\<close> is \<^verbatim>\<open>ValueError\<close>);
  \<^item> \<open>int_of_str\<close>: \<^verbatim>\<open>int(s)\<close> for a \<^verbatim>\<open>str\<close> (\<open>None\<close> is \<^verbatim>\<open>ValueError\<close>);
  \<^item> \<open>str_of\<close>: \<^verbatim>\<open>str(v)\<close> for a float, a list or a dict;
  \<^item> \<open>json_loads\<close>: \<^verbatim>\<open>json.loads(s)\<close> (\<open>None\<close> is \<^verbatim>\<open>json.JSONDecodeError\<close>).
\<close>

record builtins =
  float_of_str :: "string \<Rightarrow> pyfloat option"
  int_of_str :: "string \<Rightarrow> int option"
  str_of :: "json \<Rightarrow> string"
  json_loads :: "string \<Rightarrow> json option"

subsection \<open>Numbers\<close>

text \<open>
  \<^verbatim>\<open>float(i)\<close> of an \<^verbatim>\<open>int\<close> raises \<^verbatim>\<open>OverflowError\<close> when \<open>i\<close> rounds to a magnitude of
  \<open>2^1024\<close> or more. Otherwise it is the double nearest to \<open>i\<close>; the model keeps \<open>i\<close> itself.
  The program only compares the result with the thresholds 65 and 60, which are doubles, and
  rounding to the nearest double is monotone, so the comparison has the same outcome.
\<close>

definition float_overflow :: int where
  "float_overflow = 2 ^ 1024 - 2 ^ 970"

definition py_float :: "builtins \<Rightarrow> json \<Rightarrow> pyexn + pyfloat" where
  "py_float bi v =
     (case v of
        JInt i \<Rightarrow> if \<bar>i\<bar> \<ge> float_overflow then Inl OverflowError else Inr (Finite (of_int i))
      | JBool b \<Rightarrow> Inr (Finite (if b then 1 else 0))
      | JFloat f \<Rightarrow> Inr f
      | JStr s \<Rightarrow> (case float_of_str bi s of None \<Rightarrow> Inl ValueError | Some f \<Rightarrow> Inr f)
      | _ \<Rightarrow> Inl TypeError)"

text \<open>\<^verbatim>\<open>conf >= threshold\<close> on a float and an integer constant; every comparison with NaN is false.\<close>

definition float_ge :: "pyfloat \<Rightarrow> int \<Rightarrow> bool" where
  "float_ge f t = (case f of Finite r \<Rightarrow> of_int t \<le> r | PosInf \<Rightarrow> True | NegInf \<Rightarrow> False | NaN \<Rightarrow> False)"

text \<open>\<^verbatim>\<open>int(v)\<close>: a float is truncated towards zero.\<close>

definition py_trunc :: "rat \<Rightarrow> int" where
  "py_trunc r = (if 0 \<le> r then \<lfloor>r\<rfloor> else \<lceil>r\<rceil>)"

definition py_int :: "builtins \<Rightarrow> json \<Rightarrow> pyexn + int" where
  "py_int bi v =
     (case v of
        JInt i \<Rightarrow> Inr i
      | JBool b \<Rightarrow> Inr (if b then 1 else 0)
      | JFloat f \<Rightarrow>
          (case f of Finite r \<Rightarrow> Inr (py_trunc r) | NaN \<Rightarrow> Inl ValueError | _ \<Rightarrow> Inl OverflowError)
      | JStr s \<Rightarrow> (case int_of_str bi s of None \<Rightarrow> Inl ValueError | Some i \<Rightarrow> Inr i)
      | _ \<Rightarrow> Inl TypeError)"

text \<open>
  \<^verbatim>\<open>round(x)\<close> of a float with one argument: the nearest integer, a tie going to the even
  neighbour (Python 3).
\<close>

definition py_round :: "rat \<Rightarrow> int" where
  "py_round r =
     (let f = \<lfloor>r\<rfloor>; d = r - of_int f
      in if d < 1 / 2 then f else if 1 / 2 < d then f + 1 else if even f then f else f + 1)"

text \<open>
  \<^verbatim>\<open>round(confidence / 10)\<close> for an \<^verbatim>\<open>int\<close>. The true division raises \<^verbatim>\<open>OverflowError\<close> when
  the quotient is too large for a double. The quotient is kept exact; for
  \<open>\<bar>confidence\<bar> < 2^49\<close> the double quotient rounds to the same integer.
\<close>

definition round_div10 :: "int \<Rightarrow> pyexn + int" where
  "round_div10 c =
     (if \<bar>c\<bar> \<ge> 10 * float_overflow then Inl OverflowError else Inr (py_round (of_int c / 10)))"

text \<open>Truth value of a JSON value in a condition.\<close>

definition truthy :: "json \<Rightarrow> bool" where
  "truthy v =
     (case v of
        JNull \<Rightarrow> False
      | JBool b \<Rightarrow> b
      | JInt i \<Rightarrow> i \<noteq> 0
      | JFloat f \<Rightarrow> f \<noteq> Finite 0
      | JStr s \<Rightarrow> s \<noteq> []
      | JList xs \<Rightarrow> xs \<noteq> []
      | JDict d \<Rightarrow> d \<noteq> [])"

subsection \<open>Strings\<close>

definition digit_char :: "nat \<Rightarrow> char" where
  "digit_char n = ''0123456789'' ! (n mod 10)"

fun str_nat :: "nat \<Rightarrow> string" where
  "str_nat n = (if n < 10 then [digit_char n] else str_nat (n div 10) @ [digit_char n])"

declare str_nat.simps [simp del]

text \<open>\<^verbatim>\<open>str(i)\<close> of an \<^verbatim>\<open>int\<close>.\<close>

definition str_int :: "int \<Rightarrow> string" where
  "str_int i = (if i < 0 then ''-'' @ str_nat (nat (- i)) else str_nat (nat i))"

text \<open>
  \<^verbatim>\<open>s * n\<close>: repetition; a count of zero or less gives the empty string.
\<close>

definition py_repeat :: "string \<Rightarrow> int \<Rightarrow> string" where
  "py_repeat s n = concat (replicate (nat n) s)"

text \<open>\<^verbatim>\<open>sep.join(xs)\<close>.\<close>

fun py_join :: "string \<Rightarrow> string list \<Rightarrow> string" where
  "py_join sep [] = []"
| "py_join sep [x] = x"
| "py_join sep (x # y # ys) = x @ sep @ py_join sep (y # ys)"

text \<open>\<^verbatim>\<open>p in s\<close> on strings: \<open>p\<close> occurs in \<open>s\<close> as a contiguous run.\<close>

fun py_in :: "string \<Rightarrow> string \<Rightarrow> bool" where
  "py_in p [] = (p = [])"
| "py_in p (c # cs) = (take (length p) (c # cs) = p \<or> py_in p cs)"

definition startswith :: "string \<Rightarrow> string \<Rightarrow> bool" where
  "startswith s p = (take (length p) s = p)"

text \<open>
  The code points of a string: in UTF-8 a byte \<open>10xxxxxx\<close> continues the code point of the
  byte before it.
\<close>

definition is_continuation :: "char \<Rightarrow> bool" where
  "is_continuation c = ((128::nat) \<le> of_char c \<and> (of_char c :: nat) < 192)"

function codepoints :: "string \<Rightarrow> string list" where
  "codepoints [] = []"
| "codepoints (c # cs) =
     (c # takeWhile is_continuation cs) # codepoints (dropWhile is_continuation cs)"
  by pat_completeness auto
termination
  by (relation "measure length") (auto simp: length_dropWhile_le le_imp_less_Suc)

text \<open>\<^verbatim>\<open>xs[-n:]\<close> on a list: the last \<open>n\<close> entries, all of them when there are fewer.\<close>

definition last_n :: "nat \<Rightarrow> 'a list \<Rightarrow> 'a list" where
  "last_n n xs = drop (length xs - n) xs"

text \<open>
  Case mapping is modelled on ASCII: the bytes of other code points are left as they are and
  do not count as letters.
\<close>

definition is_upper :: "char \<Rightarrow> bool" where
  "is_upper c = ((65::nat) \<le> of_char c \<and> (of_char c :: nat) \<le> 90)"

definition is_lower :: "char \<Rightarrow> bool" where
  "is_lower c = ((97::nat) \<le> of_char c \<and> (of_char c :: nat) \<le> 122)"

definition to_upper :: "char \<Rightarrow> char" where
  "to_upper c = (if is_lower c then char_of ((of_char c :: nat) - 32) else c)"

definition to_lower :: "char \<Rightarrow> char" where
  "to_lower c = (if is_upper c then char_of ((of_char c :: nat) + 32) else c)"

text \<open>
  \<^verbatim>\<open>s.strip()\<close> removes the white space at both ends. The white space of Python is: the
  ASCII characters 9 to 13 and 28 to 32, and the code points U+0085, U+00A0, U+1680, U+2000 to
  U+200A, U+2028, U+2029, U+202F, U+205F and U+3000, here in UTF-8.
\<close>

definition is_space :: "string \<Rightarrow> bool" where
  "is_space cp =
     (case map of_char cp of
        [a] \<Rightarrow> a \<in> {9, 10, 11, 12, 13, 28, 29, 30, 31, 32::nat}
      | [a, b] \<Rightarrow> a = 0xC2 \<and> b \<in> {0x85, 0xA0}
      | [a, b, c] \<Rightarrow>
          (a = 0xE1 \<and> b = 0x9A \<and> c = 0x80)
          \<or> (a = 0xE2 \<and> b = 0x80 \<and> ((0x80 \<le> c \<and> c \<le> 0x8A) \<or> c \<in> {0xA8, 0xA9, 0xAF}))
          \<or> (a = 0xE2 \<and> b = 0x81 \<and> c = 0x9F)
          \<or> (a = 0xE3 \<and> b = 0x80 \<and> c = 0x80)
      | _ \<Rightarrow> False)"

definition py_strip :: "string \<Rightarrow> string" where
  "py_strip s = concat (rev (dropWhile is_space (rev (dropWhile is_space (codepoints s)))))"

definition py_lower :: "string \<Rightarrow> string" where
  "py_lower s = map to_lower s"

text \<open>
  \<^verbatim>\<open>s.title()\<close>: a letter that follows a letter is lower-cased, any other letter is
  upper-cased. The flag says whether the character before was a letter.
\<close>

fun title_from :: "bool \<Rightarrow> string \<Rightarrow> string" where
  "title_from prev [] = []"
| "title_from prev (c # cs) =
     (if is_lower c \<or> is_upper c
      then (if prev then to_lower c else to_upper c) # title_from True cs
      else c # title_from False cs)"

definition py_title :: "string \<Rightarrow> string" where
  "py_title s = title_from False s"

text \<open>
  \<^verbatim>\<open>s.split(' ', 1)[1]\<close>: what follows the first space; \<^verbatim>\<open>IndexError\<close> when there is none.
\<close>

definition after_first_space :: "string \<Rightarrow> pyexn + string" where
  "after_first_space s =
     (if CHR '' '' \<in> set s then Inr (tl (dropWhile (\<lambda>c. c \<noteq> CHR '' '') s)) else Inl IndexError)"

subsection \<open>Dictionaries and JSON values\<close>

text \<open>\<^verbatim>\<open>d.get(k, default)\<close> on the bindings of a dict.\<close>

definition dget :: "(string \<times> json) list \<Rightarrow> string \<Rightarrow> json \<Rightarrow> json" where
  "dget d k dflt = (case map_of d k of None \<Rightarrow> dflt | Some v \<Rightarrow> v)"

text \<open>
  A value inside an f-string: a \<^verbatim>\<open>str\<close> is inserted as it is, other values by \<^verbatim>\<open>str()\<close>.
\<close>

definition py_fmt :: "builtins \<Rightarrow> json \<Rightarrow> string" where
  "py_fmt bi v =
     (case v of
        JStr s \<Rightarrow> s
      | JNull \<Rightarrow> ''None''
      | JBool b \<Rightarrow> (if b then ''True'' else ''False'')
      | JInt i \<Rightarrow> str_int i
      | _ \<Rightarrow> str_of bi v)"

text \<open>
  \<^verbatim>\<open>for x in v\<close>: the entries of a list, the code points of a string, the keys of a dict;
  other JSON values are not iterable.
\<close>

definition py_iter :: "json \<Rightarrow> pyexn + json list" where
  "py_iter v =
     (case v of
        JList xs \<Rightarrow> Inr xs
      | JStr s \<Rightarrow> Inr (map JStr (codepoints s))
      | JDict d \<Rightarrow> Inr (map (\<lambda>kv. JStr (fst kv)) d)
      | _ \<Rightarrow> Inl TypeError)"

text \<open>
  \<^verbatim>\<open>v[-6:]\<close> on a JSON value: lists and strings can be sliced, a dict raises \<^verbatim>\<open>TypeError\<close>
  (the slice is not hashable), as does any value without subscripts.
\<close>

definition py_last_n :: "nat \<Rightarrow> json \<Rightarrow> pyexn + json" where
  "py_last_n n v =
     (case v of
        JList xs \<Rightarrow> Inr (JList (last_n n xs))
      | JStr s \<Rightarrow> Inr (JStr (concat (last_n n (codepoints s))))
      | _ \<Rightarrow> Inl TypeError)"

subsection \<open>String literals of the program\<close>

text \<open>
  The literals of \<^verbatim>\<open>main.py\<close> that are not plain ASCII, as the bytes of the file.
\<close>

text \<open>The icon of the title of a red result (line 156).\<close>

definition RED_ICON :: string where
  "RED_ICON =
     [CHR 0xEF, CHR 0xA3, CHR 0xBF, CHR 0xC3, CHR 0xBC, CHR 0xC3, CHR 0xB6, CHR 0xC2, CHR 0xAE]"

text \<open>The icon of the title of a green result (line 158).\<close>

definition GREEN_ICON :: string where
  "GREEN_ICON =
     [CHR 0xE2, CHR 0x80, CHR 0x9A, CHR 0xC3, CHR 0xBA, CHR 0xC3, CHR 0x96]"

text \<open>The warning sign: the icon of a yellow result (line 160), the start of the two fixed error replies (lines 128 and 140) and the marker looked for on line 288.\<close>

definition WARNING_ICON :: string where
  "WARNING_ICON =
     [CHR 0xE2, CHR 0x80, CHR 0x9A, CHR 0xC3, CHR 0xB6, CHR 0xE2, CHR 0x80, CHR 0xA0, CHR 0xC3,
     CHR 0x94, CHR 0xE2, CHR 0x88, CHR 0x8F, CHR 0xC3, CHR 0xA8]"

text \<open>The icon of the error messages (lines 194, 259, 276).\<close>

definition CROSS_ICON :: string where
  "CROSS_ICON =
     [CHR 0xE2, CHR 0x80, CHR 0x9A, CHR 0xC3, CHR 0xB9, CHR 0xC3, CHR 0xA5]"

text \<open>The icon of the placeholder (line 181) and of the red-flag heading (line 166).\<close>

definition SEARCH_ICON :: string where
  "SEARCH_ICON =
     [CHR 0xEF, CHR 0xA3, CHR 0xBF, CHR 0xC3, CHR 0xBC, CHR 0xC3, CHR 0xAE, CHR 0xC3, CHR 0xA9]"

text \<open>The icon of the placeholder of an image description (line 263).\<close>

definition PICTURE_ICON :: string where
  "PICTURE_ICON =
     [CHR 0xEF, CHR 0xA3, CHR 0xBF, CHR 0xC3, CHR 0xBC, CHR 0xC3, CHR 0xB1, CHR 0xC2, CHR 0xBA,
     CHR 0xC3, CHR 0x94, CHR 0xE2, CHR 0x88, CHR 0x8F, CHR 0xC3, CHR 0xA8]"

text \<open>The icon of the complaint text (line 228).\<close>

definition MEMO_ICON :: string where
  "MEMO_ICON =
     [CHR 0xEF, CHR 0xA3, CHR 0xBF, CHR 0xC3, CHR 0xBC, CHR 0xC3, CHR 0xAC, CHR 0xC3, CHR 0xB9]"

text \<open>The two cells of the confidence bar (line 162).\<close>

definition CELL_FILLED :: string where
  "CELL_FILLED =
     [CHR 0xEF, CHR 0xA3, CHR 0xBF, CHR 0xC3, CHR 0xBC, CHR 0xC3, CHR 0xBC, CHR 0xC2, CHR 0xA9]"

definition CELL_EMPTY :: string where
  "CELL_EMPTY =
     [CHR 0xE2, CHR 0x80, CHR 0x9A, CHR 0xC2, CHR 0xA8, CHR 0xC3, CHR 0xBA]"

text \<open>The icons and the Hindi heading of the two summaries (line 164).\<close>

definition FLAG_EN :: string where
  "FLAG_EN =
     [CHR 0xEF, CHR 0xA3, CHR 0xBF, CHR 0xC3, CHR 0xBC, CHR 0xC3, CHR 0xA1, CHR 0xC2, CHR 0xA8,
     CHR 0xEF, CHR 0xA3, CHR 0xBF, CHR 0xC3, CHR 0xBC, CHR 0xC3, CHR 0xA1, CHR 0xC3,
     CHR 0x9F]"

definition FLAG_HI :: string where
  "FLAG_HI =
     [CHR 0xEF, CHR 0xA3, CHR 0xBF, CHR 0xC3, CHR 0xBC, CHR 0xC3, CHR 0xA1, CHR 0xC3, CHR 0x86,
     CHR 0xEF, CHR 0xA3, CHR 0xBF, CHR 0xC3, CHR 0xBC, CHR 0xC3, CHR 0xA1, CHR 0xE2,
     CHR 0x89, CHR 0xA5]"

definition SUMMARY_HI :: string where
  "SUMMARY_HI =
     [CHR 0xE2, CHR 0x80, CHR 0xA1, CHR 0xC2, CHR 0xA7, CHR 0xE2, CHR 0x88, CHR 0x8F, CHR 0xE2,
     CHR 0x80, CHR 0xA1, CHR 0xC2, CHR 0xA7, CHR 0xC3, CHR 0xA6, CHR 0xE2, CHR 0x80,
     CHR 0xA1, CHR 0xC2, CHR 0xA7, CHR 0xE2, CHR 0x88, CHR 0x9E, CHR 0xE2, CHR 0x80,
     CHR 0xA1, CHR 0xC2, CHR 0xA7, CHR 0xC3, CHR 0xA6, CHR 0xE2, CHR 0x80, CHR 0xA1,
     CHR 0xC2, CHR 0xA7, CHR 0xC3, CHR 0x87, CHR 0xE2, CHR 0x80, CHR 0xA1, CHR 0xC2,
     CHR 0xA7, CHR 0xE2, CHR 0x88, CHR 0x82]"

text \<open>The bullet of a red flag (line 166).\<close>

definition BULLET :: string where
  "BULLET =
     [CHR 0xE2, CHR 0x80, CHR 0x9A, CHR 0xC3, CHR 0x84, CHR 0xC2, CHR 0xA2]"

text \<open>The Hindi texts of the two fixed verdicts (lines 94 and 115).\<close>

definition WHY_HI_NO_CONTENT :: string where
  "WHY_HI_NO_CONTENT =
     [CHR 0xE2, CHR 0x80, CHR 0xA1, CHR 0xC2, CHR 0xA7, CHR 0xC2, CHR 0xB5, CHR 0xE2, CHR 0x80,
     CHR 0xA1, CHR 0xC2, CHR 0xA7, CHR 0xC3, CHR 0xB8, CHR 0xE2, CHR 0x80, CHR 0xA1,
     CHR 0xC2, CHR 0xA7, CHR 0xE2, CHR 0x88, CHR 0x82, CHR 0xE2, CHR 0x80, CHR 0xA1,
     CHR 0xE2, CHR 0x80, CHR 0xA2, CHR 0xC3, CHR 0xA7, CHR 0xE2, CHR 0x80, CHR 0xA1,
     CHR 0xC2, CHR 0xA7, CHR 0xE2, CHR 0x89, CHR 0xA4, CHR 0xE2, CHR 0x80, CHR 0xA1,
     CHR 0xE2, CHR 0x80, CHR 0xA2, CHR 0xC3, CHR 0xA1, CHR 0xE2, CHR 0x80, CHR 0xA1,
     CHR 0xC2, CHR 0xA7, CHR 0xE2, CHR 0x88, CHR 0x91, CHR 0xE2, CHR 0x80, CHR 0xA1,
     CHR 0xC2, CHR 0xA7, CHR 0xC2, CHR 0xA3] @ '' '' @ [CHR 0xE2, CHR 0x80, CHR 0xA1,
     CHR 0xC2, CHR 0xA7, CHR 0xC3, CHR 0xAF, CHR 0xE2, CHR 0x80, CHR 0xA1, CHR 0xE2,
     CHR 0x80, CHR 0xA2, CHR 0xC3, CHR 0xA1] @ '' '' @ [CHR 0xE2, CHR 0x80, CHR 0xA1,
     CHR 0xC2, CHR 0xA7, CHR 0xE2, CHR 0x89, CHR 0xA4, CHR 0xE2, CHR 0x80, CHR 0xA1,
     CHR 0xC2, CHR 0xA7, CHR 0xC3, CHR 0xB8, CHR 0xE2, CHR 0x80, CHR 0xA1, CHR 0xC2,
     CHR 0xA7, CHR 0xC3, CHR 0xA8] @ '' '' @ [CHR 0xE2, CHR 0x80, CHR 0xA1, CHR 0xC2,
     CHR 0xA7, CHR 0xC3, CHR 0xAF, CHR 0xE2, CHR 0x80, CHR 0xA1, CHR 0xE2, CHR 0x80,
     CHR 0xA2, CHR 0xC3, CHR 0xA3, CHR 0xE2, CHR 0x80, CHR 0xA1, CHR 0xC2, CHR 0xA7,
     CHR 0xC3, CHR 0xA0] @ '' '' @ [CHR 0xE2, CHR 0x80, CHR 0xA1, CHR 0xC2, CHR 0xA7,
     CHR 0xE2, CHR 0x88, CHR 0x8F, CHR 0xE2, CHR 0x80, CHR 0xA1, CHR 0xC2, CHR 0xA7,
     CHR 0xC3, CHR 0xA6, CHR 0xE2, CHR 0x80, CHR 0xA1, CHR 0xC2, CHR 0xA7, CHR 0xC3,
     CHR 0x86, CHR 0xE2, CHR 0x80, CHR 0xA1, CHR 0xC2, CHR 0xA7, CHR 0xC3, CHR 0xB3,
     CHR 0xE2, CHR 0x80, CHR 0xA1, CHR 0xE2, CHR 0x80, CHR 0xA2, CHR 0xC3, CHR 0xA7,
     CHR 0xE2, CHR 0x80, CHR 0xA1, CHR 0xC2, CHR 0xA7, CHR 0xE2, CHR 0x88, CHR 0x9E,
     CHR 0xE2, CHR 0x80, CHR 0xA1, CHR 0xE2, CHR 0x80, CHR 0xA2, CHR 0xC3, CHR 0x84]
     @ '' '' @ [CHR 0xE2, CHR 0x80, CHR 0xA1, CHR 0xC2, CHR 0xA7, CHR 0xC2, CHR 0xAE,
     CHR 0xE2, CHR 0x80, CHR 0xA1, CHR 0xC2, CHR 0xA7, CHR 0xCF, CHR 0x80, CHR 0xE2,
     CHR 0x80, CHR 0xA1, CHR 0xE2, CHR 0x80, CHR 0xA2, CHR 0xC3, CHR 0x84, CHR 0xE2,
     CHR 0x80, CHR 0xA1, CHR 0xC2, CHR 0xA7, CHR 0xC3, CHR 0x87, CHR 0xE2, CHR 0x80,
     CHR 0xA1, CHR 0xE2, CHR 0x80, CHR 0xA2, CHR 0xC2, CHR 0xA7]"

definition WHY_HI_AI_ERROR :: string where
  "WHY_HI_AI_ERROR =
     [CHR 0xE2, CHR 0x80, CHR 0xA1, CHR 0xC2, CHR 0xA7, CHR 0xC3, CHR 0xA8, CHR 0xE2, CHR 0x80,
     CHR 0xA1, CHR 0xC2, CHR 0xA7, CHR 0xC3, CHR 0x9C, CHR 0xE2, CHR 0x80, CHR 0xA1,
     CHR 0xC2, CHR 0xA7, CHR 0xC3, CHR 0xA0] @ '' '' @ [CHR 0xE2, CHR 0x80, CHR 0xA1,
     CHR 0xC2, CHR 0xA7, CHR 0xC2, CHR 0xA7, CHR 0xE2, CHR 0x80, CHR 0xA1, CHR 0xE2,
     CHR 0x80, CHR 0xA2, CHR 0xC3, CHR 0xA7, CHR 0xE2, CHR 0x80, CHR 0xA1, CHR 0xC2,
     CHR 0xA7, CHR 0xE2, CHR 0x88, CHR 0x9E, CHR 0xE2, CHR 0x80, CHR 0xA1, CHR 0xE2,
     CHR 0x80, CHR 0xA2, CHR 0xC3, CHR 0x85, CHR 0xE2, CHR 0x80, CHR 0xA1, CHR 0xC2,
     CHR 0xA7, CHR 0xC3, CHR 0xBC, CHR 0xE2, CHR 0x80, CHR 0xA1, CHR 0xC2, CHR 0xA7,
     CHR 0xC3, CHR 0xB8] @ '' '' @ [CHR 0xE2, CHR 0x80, CHR 0xA1, CHR 0xC2, CHR 0xA7,
     CHR 0xC3, CHR 0xAF, CHR 0xE2, CHR 0x80, CHR 0xA1, CHR 0xE2, CHR 0x80, CHR 0xA2,
     CHR 0xC3, CHR 0xA1] @ '' '' @ [CHR 0xE2, CHR 0x80, CHR 0xA1, CHR 0xC2, CHR 0xA7,
     CHR 0xC3, CHR 0xAF, CHR 0xE2, CHR 0x80, CHR 0xA1, CHR 0xC2, CHR 0xA7, CHR 0xC3,
     CHR 0xA6, CHR 0xE2, CHR 0x80, CHR 0xA1, CHR 0xC2, CHR 0xA7, CHR 0xE2, CHR 0x88,
     CHR 0x9E, CHR 0xE2, CHR 0x80, CHR 0xA1, CHR 0xC2, CHR 0xA7, CHR 0xC2, CHR 0xA3]
     @ '' '' @ [CHR 0xE2, CHR 0x80, CHR 0xA1, CHR 0xC2, CHR 0xA7, CHR 0xC2, CHR 0xB5,
     CHR 0xE2, CHR 0x80, CHR 0xA1, CHR 0xC2, CHR 0xA7, CHR 0xC3, CHR 0xB8, CHR 0xE2,
     CHR 0x80, CHR 0xA1, CHR 0xC2, CHR 0xA7, CHR 0xE2, CHR 0x88, CHR 0x82, CHR 0xE2,
     CHR 0x80, CHR 0xA1, CHR 0xE2, CHR 0x80, CHR 0xA2, CHR 0xC3, CHR 0xA7, CHR 0xE2,
     CHR 0x80, CHR 0xA1, CHR 0xC2, CHR 0xA7, CHR 0xE2, CHR 0x89, CHR 0xA4, CHR 0xE2,
     CHR 0x80, CHR 0xA1, CHR 0xE2, CHR 0x80, CHR 0xA2, CHR 0xC3, CHR 0xA1, CHR 0xE2,
     CHR 0x80, CHR 0xA1, CHR 0xC2, CHR 0xA7, CHR 0xE2, CHR 0x88, CHR 0x91, CHR 0xE2,
     CHR 0x80, CHR 0xA1, CHR 0xC2, CHR 0xA7, CHR 0xC2, CHR 0xA3] @ '' '' @ [CHR 0xE2,
     CHR 0x80, CHR 0xA1, CHR 0xC2, CHR 0xA7, CHR 0xC2, CHR 0xB5, CHR 0xE2, CHR 0x80,
     CHR 0xA1, CHR 0xC2, CHR 0xA7, CHR 0xC3, CHR 0xB8, CHR 0xE2, CHR 0x80, CHR 0xA1,
     CHR 0xC2, CHR 0xA7, CHR 0xC2, CHR 0xB4, CHR 0xE2, CHR 0x80, CHR 0xA1, CHR 0xC2,
     CHR 0xA7, CHR 0xE2, CHR 0x89, CHR 0xA4] @ '' '' @ [CHR 0xE2, CHR 0x80, CHR 0xA1,
     CHR 0xC2, CHR 0xA7, CHR 0xCF, CHR 0x80, CHR 0xE2, CHR 0x80, CHR 0xA1, CHR 0xE2,
     CHR 0x80, CHR 0xA2, CHR 0xC3, CHR 0x85, CHR 0xE2, CHR 0x80, CHR 0xA1, CHR 0xC2,
     CHR 0xA7, CHR 0xC3, CHR 0x9C, CHR 0xE2, CHR 0x80, CHR 0xA1, CHR 0xE2, CHR 0x80,
     CHR 0xA2, CHR 0xC2, CHR 0xA7]"

text \<open>The usage text (lines 200 to 207).\<close>

definition WELCOME_TEXT :: string where
  "WELCOME_TEXT =
     [CHR 0xEF, CHR 0xA3, CHR 0xBF, CHR 0xC3, CHR 0xBC, CHR 0xC3, CHR 0xAB, CHR 0xC3, CHR 0xA3]
     @ '' Hello! I'' @ [CHR 0x27] @ ''m your AI analyzer.'' @ [CHR 0x0A, CHR 0x0A]
     @ ''**How to use me:**'' @ [CHR 0x0A] @ ''1.  '' @ [CHR 0xEF, CHR 0xA3, CHR 0xBF,
     CHR 0xC3, CHR 0xBC, CHR 0xC3, CHR 0xAD, CHR 0xC2, CHR 0xA8]
     @ '' **Chat:** Talk to me normally.'' @ [CHR 0x0A] @ ''2.  '' @ [CHR 0xEF, CHR 0xA3,
     CHR 0xBF, CHR 0xC3, CHR 0xBC, CHR 0xC3, CHR 0xAE, CHR 0xC3, CHR 0xA9]
     @ '' **Structured Analysis:** Use '' @ [CHR 0x60] @ ''/search <text>'' @ [CHR 0x60]
     @ '' OR send a photo with '' @ [CHR 0x60] @ ''/search'' @ [CHR 0x60]
     @ '' in the caption.'' @ [CHR 0x0A] @ ''3.  '' @ [CHR 0xEF, CHR 0xA3, CHR 0xBF,
     CHR 0xC3, CHR 0xBC, CHR 0xC3, CHR 0xB1, CHR 0xC2, CHR 0xBA, CHR 0xC3, CHR 0x94,
     CHR 0xE2, CHR 0x88, CHR 0x8F, CHR 0xC3, CHR 0xA8]
     @ '' **Descriptive Analysis:** Send a photo *without* a command to get a description.''
     @ [CHR 0x0A] @ ''4.  '' @ [CHR 0xEF, CHR 0xA3, CHR 0xBF, CHR 0xC3, CHR 0xBC,
     CHR 0xC3, CHR 0xAC, CHR 0xC3, CHR 0xB9] @ '' **Report:** Use '' @ [CHR 0x60]
     @ ''/complaint'' @ [CHR 0x60] @ '' after a '' @ [CHR 0x27] @ ''Red Flag''
     @ [CHR 0x27] @ '' result.''"

definition NL :: string where
  "NL = [CHR 0x0A]"

definition BACKTICK :: string where
  "BACKTICK = [CHR 0x60]"

definition APOSTROPHE :: string where
  "APOSTROPHE = [CHR 0x27]"

section \<open>Configuration\<close>

definition CONFIDENCE_THRESHOLD_FAKE :: int where
  "CONFIDENCE_THRESHOLD_FAKE = 65"

definition CONFIDENCE_THRESHOLD_REAL :: int where
  "CONFIDENCE_THRESHOLD_REAL = 60"

definition CHAT_HISTORY_LIMIT :: nat where
  "CHAT_HISTORY_LIMIT = 6"

section \<open>The two fixed verdicts\<close>

text \<open>The dict returned for empty content (lines 93 to 95).\<close>

definition NO_CONTENT_VERDICT :: json where
  "NO_CONTENT_VERDICT = JDict
     [(''result'', JStr ''UNSURE''),
      (''confidence'', JInt 0),
      (''reason'', JStr ''No content provided.''),
      (''why_card_en'', JStr ''No content to analyze.''),
      (''why_card_hi'', JStr WHY_HI_NO_CONTENT),
      (''red_flags'', JList [])]"

text \<open>The dict returned when the call to the model fails (lines 113 to 115).\<close>

definition AI_ERROR_VERDICT :: json where
  "AI_ERROR_VERDICT = JDict
     [(''result'', JStr ''UNSURE''),
      (''confidence'', JInt 40),
      (''reason'', JStr ''AI error occurred.''),
      (''why_card_en'', JStr ''Could not analyze due to an AI error.''),
      (''why_card_hi'', JStr WHY_HI_AI_ERROR),
      (''red_flags'', JList [])]"

section \<open>Classification and formatting\<close>

text \<open>
  \<^verbatim>\<open>get_result_color\<close> (lines 144 to 148). \<^verbatim>\<open>j.get\<close> exists on a dict only; both
  \<^verbatim>\<open>j.get("result", "UNSURE")\<close> and \<^verbatim>\<open>float(j.get("confidence", 0))\<close> are evaluated before
  the comparisons.
\<close>

definition get_result_color :: "builtins \<Rightarrow> json \<Rightarrow> pyexn + string" where
  "get_result_color bi j =
     (case j of
        JDict d \<Rightarrow>
          (let res = dget d ''result'' (JStr ''UNSURE'')
           in case py_float bi (dget d ''confidence'' (JInt 0)) of
                Inl e \<Rightarrow> Inl e
              | Inr conf \<Rightarrow>
                  if res = JStr ''FAKE'' \<and> float_ge conf CONFIDENCE_THRESHOLD_FAKE then Inr ''RED''
                  else if res = JStr ''REAL'' \<and> float_ge conf CONFIDENCE_THRESHOLD_REAL then Inr ''GREEN''
                  else Inr ''YELLOW'')
      | _ \<Rightarrow> Inl AttributeError)"

text \<open>
  The pieces of \<^verbatim>\<open>format_analysis_reply\<close> (lines 151 to 167): the title of lines 155 to 160,
  the bar of lines 161 and 162, and the text of lines 163 to 166.
\<close>

definition title_line :: "string \<Rightarrow> string \<Rightarrow> string" where
  "title_line color result =
     (if color = ''RED'' then RED_ICON @ '' *Result: '' @ result @ ''* (Red Flag)''
      else if color = ''GREEN'' then GREEN_ICON @ '' *Result: '' @ result @ ''* (Green Flag)''
      else WARNING_ICON @ '' *Result: '' @ result @ ''* (Yellow Flag)'')"

definition confidence_bar :: "int \<Rightarrow> string" where
  "confidence_bar filled = py_repeat CELL_FILLED filled @ py_repeat CELL_EMPTY (10 - filled)"

definition red_flag_lines :: "builtins \<Rightarrow> json list \<Rightarrow> string" where
  "red_flag_lines bi flags =
     NL @ ''*'' @ SEARCH_ICON @ '' Textual Red Flags:*'' @ NL
     @ py_join NL (map (\<lambda>flag. BULLET @ '' _'' @ py_fmt bi flag @ ''_'') flags)"

definition reply_body :: "builtins \<Rightarrow> (string \<times> json) list \<Rightarrow> string \<Rightarrow> string \<Rightarrow> int \<Rightarrow> string" where
  "reply_body bi d title bar confidence =
     title @ NL @ NL @ ''*Confidence:* '' @ bar @ '' ('' @ str_int confidence @ ''%)'' @ NL
     @ ''*Reason:* '' @ py_fmt bi (dget d ''reason'' (JStr ''N/A'')) @ NL @ NL
     @ FLAG_EN @ '' *Summary:*'' @ NL @ ''> '' @ py_fmt bi (dget d ''why_card_en'' (JStr ''N/A''))
     @ NL @ NL
     @ FLAG_HI @ '' *'' @ SUMMARY_HI @ '':*'' @ NL @ ''> ''
     @ py_fmt bi (dget d ''why_card_hi'' (JStr ''N/A'')) @ NL"

definition format_analysis_reply :: "builtins \<Rightarrow> json \<Rightarrow> pyexn + string" where
  "format_analysis_reply bi j =
     (case get_result_color bi j of
        Inl e \<Rightarrow> Inl e
      | Inr color \<Rightarrow>
     (case j of
        JDict d \<Rightarrow>
     (case dget d ''result'' (JStr ''UNSURE'') of
        JStr r \<Rightarrow>
     (let result = py_title r
      in case py_int bi (dget d ''confidence'' (JInt 0)) of
        Inl e \<Rightarrow> Inl e
      | Inr confidence \<Rightarrow>
     (let title = title_line color result
      in case round_div10 confidence of
        Inl e \<Rightarrow> Inl e
      | Inr filled \<Rightarrow>
     (let bar = confidence_bar filled;
          reply = reply_body bi d title bar confidence
      in if truthy (dget d ''red_flags'' JNull)
         then (case py_iter (dget d ''red_flags'' JNull) of
                 Inl e \<Rightarrow> Inl e
               | Inr flags \<Rightarrow> Inr (reply @ red_flag_lines bi flags))
         else Inr reply)))
      | _ \<Rightarrow> Inl AttributeError)
      | _ \<Rightarrow> Inl AttributeError))"

section \<open>The world around the program\<close>

text \<open>
  The state that the handlers read and write: the module-level dict \<^verbatim>\<open>bot_user_data\<close>, the
  file \<^verbatim>\<open>user_data.json\<close>, the lines appended to \<^verbatim>\<open>bot_logs.txt\<close> (who and which action; the
  time stamp and the free-text details are left out), and the calls made to the Gemini model,
  to the Telegram API and to the file download, in the order they were made.

  The answers of the three remote services are not decided by the program, and neither is
  whether \<^verbatim>\<open>bot_logs.txt\<close> can be opened for appending. They are the fields of an
  environment: the answer to a call may depend on the call and on how many calls came before
  it, and whether a line can be appended to the log may depend on the line and on how many
  lines the log holds.

  Rewriting \<^verbatim>\<open>user_data.json\<close> is never guarded in the program and is taken to succeed.
  Handlers run one after the other.
\<close>

type_synonym image = string

record message =
  from_user_id :: int
  msg_text :: string
  msg_caption :: "string option"

text \<open>
  The file \<^verbatim>\<open>user_data.json\<close> as \<^verbatim>\<open>open\<close> and \<^verbatim>\<open>json.load\<close> find it: not there, there but not
  readable by the process, readable but not UTF-8, text that is not a JSON document, or a
  JSON document.
\<close>

datatype file_state = Absent | Unreadable | NotUtf8 | Malformed | Document json

text \<open>
  A request to the model: the structured analysis of a text and an optional image in the
  fixed prompt of lines 64 to 78, the description of an image with its caption in the prompt
  of lines 80 to 85, or a chat message with the history passed to \<^verbatim>\<open>start_chat\<close>.
  The model raises, answers with no parts (blocked), or answers with a text.
\<close>

datatype gemini_request =
    StructuredAnalysis string "image option"
  | ImageDescription image string
  | ChatRequest string json

datatype gemini_outcome = GenRaises | GenBlocked | GenText string

text \<open>
  A call of the Telegram API: \<^verbatim>\<open>bot.reply_to(message, text, parse_mode)\<close> or
  \<^verbatim>\<open>bot.edit_message_text(text, chat_id, message_id, parse_mode)\<close>. The message to edit is
  named by the position of the call that sent it.
\<close>

datatype tg_call =
    ReplyTo message string "string option"
  | EditMessageText string nat "string option"

record env =
  py :: builtins
  gemini :: "nat \<Rightarrow> gemini_request \<Rightarrow> gemini_outcome"
  telegram :: "nat \<Rightarrow> tg_call \<Rightarrow> bool"
  download :: "nat \<Rightarrow> message \<Rightarrow> image option"
  log_appends :: "nat \<Rightarrow> string \<Rightarrow> string \<Rightarrow> bool"

record world =
  bot_user_data :: json
  user_data_file :: file_state
  bot_logs :: "(string \<times> string) list"
  gemini_calls :: "gemini_request list"
  telegram_calls :: "(tg_call \<times> bool) list"
  downloads :: "message list"

subsection \<open>Logging and storage\<close>

text \<open>
  \<^verbatim>\<open>log_event\<close> (lines 34 to 39) opens \<^verbatim>\<open>bot_logs.txt\<close> for appending and writes one line.
  Nothing in the function and nothing at any of its calls guards the \<^verbatim>\<open>open\<close> and the
  \<^verbatim>\<open>write\<close>: when the file cannot be appended, the \<^verbatim>\<open>OSError\<close> leaves \<^verbatim>\<open>log_event\<close> and
  no line is written. \<open>logged\<close> is the state after an append that succeeded.
\<close>

definition logged :: "string \<Rightarrow> string \<Rightarrow> world \<Rightarrow> world" where
  "logged who action w = w\<lparr>bot_logs := bot_logs w @ [(who, action)]\<rparr>"

definition log_event :: "env \<Rightarrow> string \<Rightarrow> string \<Rightarrow> world \<Rightarrow> (pyexn + unit) \<times> world" where
  "log_event env who action w =
     (if log_appends env (length (bot_logs w)) who action then (Inr (), logged who action w)
      else (Inl OSError, w))"

text \<open>
  What is stated below about the handlers is about replies, model calls and user data, in
  an environment where the handlers' own log lines can be appended: for these lines the
  handlers use \<open>logged\<close>. The function of lines 90 to 115, whose specification is about the
  exceptions that leave it, keeps the failure of its two log lines: it uses \<open>log_event\<close>.
\<close>

text \<open>\<^verbatim>\<open>open("user_data.json", "r", encoding="utf-8")\<close> followed by \<^verbatim>\<open>json.load(f)\<close>.\<close>

definition json_load :: "file_state \<Rightarrow> pyexn + json" where
  "json_load f =
     (case f of
        Absent \<Rightarrow> Inl FileNotFoundError
      | Unreadable \<Rightarrow> Inl PermissionError
      | NotUtf8 \<Rightarrow> Inl UnicodeDecodeError
      | Malformed \<Rightarrow> Inl JSONDecodeError
      | Document v \<Rightarrow> Inr v)"

text \<open>
  \<^verbatim>\<open>load_user_data\<close> (lines 43 to 48): the \<^verbatim>\<open>except\<close> clause names \<^verbatim>\<open>FileNotFoundError\<close> and
  \<^verbatim>\<open>json.JSONDecodeError\<close>; any other exception leaves the function.
\<close>

definition load_user_data :: "file_state \<Rightarrow> pyexn + json" where
  "load_user_data f =
     (case json_load f of
        Inl e \<Rightarrow> if e = FileNotFoundError \<or> e = JSONDecodeError then Inr (JDict []) else Inl e
      | Inr v \<Rightarrow> Inr v)"

text \<open>\<^verbatim>\<open>save_user_data\<close> (lines 51 to 53) rewrites the whole file.\<close>

definition save_user_data :: "json \<Rightarrow> world \<Rightarrow> world" where
  "save_user_data data w = w\<lparr>user_data_file := Document data\<rparr>"

text \<open>
  The start of the process (line 56): \<^verbatim>\<open>bot_user_data = load_user_data()\<close>. An exception
  here ends the process before any handler runs.
\<close>

definition start_bot :: "file_state \<Rightarrow> pyexn + world" where
  "start_bot f =
     (case load_user_data f of
        Inl e \<Rightarrow> Inl e
      | Inr data \<Rightarrow>
          Inr \<lparr>bot_user_data = data, user_data_file = f, bot_logs = [(''SYSTEM'', ''BOT_START'')],
               gemini_calls = [], telegram_calls = [], downloads = []\<rparr>)"

subsection \<open>The remote services\<close>

definition generate_content :: "env \<Rightarrow> gemini_request \<Rightarrow> world \<Rightarrow> gemini_outcome \<times> world" where
  "generate_content env rq w =
     (gemini env (length (gemini_calls w)) rq, w\<lparr>gemini_calls := gemini_calls w @ [rq]\<rparr>)"

definition telegram_api :: "env \<Rightarrow> tg_call \<Rightarrow> world \<Rightarrow> bool \<times> world" where
  "telegram_api env c w =
     (let ok = telegram env (length (telegram_calls w)) c
      in (ok, w\<lparr>telegram_calls := telegram_calls w @ [(c, ok)]\<rparr>))"

text \<open>\<^verbatim>\<open>bot.reply_to\<close> returns the message it sent, here the position of the call.\<close>

definition bot_reply_to ::
  "env \<Rightarrow> message \<Rightarrow> string \<Rightarrow> string option \<Rightarrow> world \<Rightarrow> (pyexn + nat) \<times> world" where
  "bot_reply_to env msg txt mode w =
     (case telegram_api env (ReplyTo msg txt mode) w of
        (ok, w1) \<Rightarrow> if ok then (Inr (length (telegram_calls w)), w1) else (Inl ApiTelegramException, w1))"

definition bot_edit_message_text ::
  "env \<Rightarrow> string \<Rightarrow> nat \<Rightarrow> string option \<Rightarrow> world \<Rightarrow> (pyexn + unit) \<times> world" where
  "bot_edit_message_text env txt mid mode w =
     (case telegram_api env (EditMessageText txt mid mode) w of
        (ok, w1) \<Rightarrow> if ok then (Inr (), w1) else (Inl ApiTelegramException, w1))"

text \<open>
  Fetching the photo of a message (lines 248 to 253 and 265 to 270): \<^verbatim>\<open>bot.get_file\<close>,
  \<^verbatim>\<open>requests.get\<close>, \<^verbatim>\<open>raise_for_status\<close> and \<^verbatim>\<open>Image.open\<close>, any of which may raise.
\<close>

definition fetch_photo :: "env \<Rightarrow> message \<Rightarrow> world \<Rightarrow> (pyexn + image) \<times> world" where
  "fetch_photo env msg w =
     (let w1 = w\<lparr>downloads := downloads w @ [msg]\<rparr>
      in case download env (length (downloads w)) msg of
           None \<Rightarrow> (Inl DownloadError, w1)
         | Some img \<Rightarrow> (Inr img, w1))"

text \<open>\<^verbatim>\<open>send_safe_reply\<close> (lines 170 to 174).\<close>

definition user_id_str :: "message \<Rightarrow> string" where
  "user_id_str msg = str_int (from_user_id msg)"

definition send_safe_reply :: "env \<Rightarrow> message \<Rightarrow> string \<Rightarrow> string option \<Rightarrow> world \<Rightarrow> world" where
  "send_safe_reply env msg txt mode w =
     (case bot_reply_to env msg txt mode w of
        (Inr sent, w1) \<Rightarrow> w1
      | (Inl e, w1) \<Rightarrow> logged (user_id_str msg) ''SEND_FAIL'' w1)"

section \<open>Calls to the model\<close>

text \<open>
  \<^verbatim>\<open>call_gemini_for_structured_analysis\<close> (lines 90 to 115). An image object is always true
  in a condition, so \<^verbatim>\<open>not img\<close> holds exactly when no image was passed. First the body of
  the \<^verbatim>\<open>try\<close> (lines 103 to 110), where the log line of line 109 is written before the
  text is parsed. Then the function with its \<^verbatim>\<open>except Exception\<close>, which catches every
  exception of the body, also the one of line 109, and writes the log line of line 112 before
  it returns the fallback verdict: an exception of that log line leaves the function.
\<close>

definition structured_analysis_try ::
  "env \<Rightarrow> string \<Rightarrow> image option \<Rightarrow> world \<Rightarrow> (pyexn + json) \<times> world" where
  "structured_analysis_try env query img w =
     (case generate_content env (StructuredAnalysis query img) w of
        (GenRaises, w1) \<Rightarrow> (Inl GeminiError, w1)
      | (GenBlocked, w1) \<Rightarrow> (Inl ValueError, w1)
      | (GenText t, w1) \<Rightarrow>
          (let text = py_strip t
           in case log_event env ''SYSTEM'' ''RAW_GEMINI_ANALYSIS_RESPONSE'' w1 of
                (Inl e, w2) \<Rightarrow> (Inl e, w2)
              | (Inr u, w2) \<Rightarrow>
                  (case json_loads (py env) text of
                     None \<Rightarrow> (Inl JSONDecodeError, w2)
                   | Some j \<Rightarrow> (Inr j, w2))))"

definition call_gemini_for_structured_analysis ::
  "env \<Rightarrow> string \<Rightarrow> image option \<Rightarrow> world \<Rightarrow> (pyexn + json) \<times> world" where
  "call_gemini_for_structured_analysis env query img w =
     (if query = [] \<and> img = None then (Inr NO_CONTENT_VERDICT, w)
      else
        (case structured_analysis_try env query img w of
           (Inr j, w1) \<Rightarrow> (Inr j, w1)
         | (Inl e, w1) \<Rightarrow>
             (case log_event env ''SYSTEM'' ''ERROR'' w1 of
                (Inl e', w2) \<Rightarrow> (Inl e', w2)
              | (Inr u, w2) \<Rightarrow> (Inr AI_ERROR_VERDICT, w2))))"

text \<open>\<^verbatim>\<open>call_gemini_for_image_description\<close> (lines 118 to 128).\<close>

definition IMAGE_ERROR_TEXT :: string where
  "IMAGE_ERROR_TEXT = WARNING_ICON @ '' An error occurred while describing the image.''"

definition call_gemini_for_image_description ::
  "env \<Rightarrow> image \<Rightarrow> string \<Rightarrow> world \<Rightarrow> string \<times> world" where
  "call_gemini_for_image_description env img caption w =
     (case generate_content env (ImageDescription img caption) w of
        (GenText t, w1) \<Rightarrow> (t, w1)
      | (other, w1) \<Rightarrow> (IMAGE_ERROR_TEXT, logged ''SYSTEM'' ''ERROR'' w1))"

text \<open>
  \<^verbatim>\<open>call_gemini_for_chat\<close> (lines 131 to 140). The slice \<^verbatim>\<open>history[-CHAT_HISTORY_LIMIT:]\<close> is
  taken inside the \<^verbatim>\<open>try\<close>, before the model is called.
\<close>

definition CHAT_ERROR_TEXT :: string where
  "CHAT_ERROR_TEXT = WARNING_ICON @ '' The AI is currently unavailable.''"

definition call_gemini_for_chat :: "env \<Rightarrow> string \<Rightarrow> json \<Rightarrow> world \<Rightarrow> string \<times> world" where
  "call_gemini_for_chat env query history w =
     (case py_last_n CHAT_HISTORY_LIMIT history of
        Inl e \<Rightarrow> (CHAT_ERROR_TEXT, logged ''SYSTEM'' ''ERROR'' w)
      | Inr recent \<Rightarrow>
          (case generate_content env (ChatRequest query recent) w of
             (GenText t, w1) \<Rightarrow> (t, w1)
           | (other, w1) \<Rightarrow> (CHAT_ERROR_TEXT, logged ''SYSTEM'' ''ERROR'' w1)))"

section \<open>The analysis pipeline\<close>

text \<open>
  Line 187, \<^verbatim>\<open>bot_user_data.setdefault(user_id_str, {})["last_complaint"] = complaint_text\<close>:
  \<^verbatim>\<open>setdefault\<close> exists on a dict only, and the item assignment needs the user's record to
  be a dict. The result is the new value of \<^verbatim>\<open>bot_user_data\<close>.
\<close>

definition set_last_complaint :: "json \<Rightarrow> string \<Rightarrow> string \<Rightarrow> pyexn + json" where
  "set_last_complaint store uid complaint_text =
     (case store of
        JDict s \<Rightarrow>
          (case dget s uid (JDict []) of
             JDict r \<Rightarrow>
               Inr (JDict (AList.update uid
                      (JDict (AList.update ''last_complaint'' (JStr complaint_text) r)) s))
           | _ \<Rightarrow> Inl TypeError)
      | _ \<Rightarrow> Inl AttributeError)"

definition ANALYZING_TEXT :: string where
  "ANALYZING_TEXT = SEARCH_ICON @ '' Analyzing content...''"

definition ANALYSIS_ERROR_TEXT :: string where
  "ANALYSIS_ERROR_TEXT = CROSS_ICON @ '' Error during analysis.''"

definition ACTION_TEXT :: string where
  "ACTION_TEXT = NL @ NL @ ''*Action:* Use '' @ BACKTICK @ ''/complaint'' @ BACKTICK @ '' for report text.''"

text \<open>The complaint of line 186; \<^verbatim>\<open>analysis_json.get('reason')\<close> is \<^verbatim>\<open>None\<close> without a reason.\<close>

definition complaint_text :: "builtins \<Rightarrow> string \<Rightarrow> (string \<times> json) list \<Rightarrow> string" where
  "complaint_text bi content d =
     ''Content: '' @ content @ NL @ NL @ ''AI Analysis: '' @ py_fmt bi (dget d ''reason'' JNull)"

text \<open>
  Lines 185 to 189: what a red result does to the store, the file and the reply. The
  verdict is a dict here, or \<^verbatim>\<open>get_result_color\<close> would have raised.
\<close>

definition record_red_flag ::
  "env \<Rightarrow> string \<Rightarrow> string \<Rightarrow> json \<Rightarrow> string \<Rightarrow> world \<Rightarrow> (pyexn + string) \<times> world" where
  "record_red_flag env uid content j reply_text w =
     (case j of
        JDict d \<Rightarrow>
          (case set_last_complaint (bot_user_data w) uid (complaint_text (py env) content d) of
             Inl e \<Rightarrow> (Inl e, w)
           | Inr store \<Rightarrow>
               (Inr (reply_text @ ACTION_TEXT), save_user_data store (w\<lparr>bot_user_data := store\<rparr>)))
      | _ \<Rightarrow> (Inl AttributeError, w))"

text \<open>The body of the \<^verbatim>\<open>try\<close> of \<^verbatim>\<open>run_analysis\<close> (lines 183 to 191).\<close>

definition run_analysis_try ::
  "env \<Rightarrow> message \<Rightarrow> string \<Rightarrow> image option \<Rightarrow> nat \<Rightarrow> world \<Rightarrow> (pyexn + unit) \<times> world" where
  "run_analysis_try env msg content img thinking_msg w =
     (case call_gemini_for_structured_analysis env content img w of
        (Inl e, w1) \<Rightarrow> (Inl e, w1)
      | (Inr analysis_json, w1) \<Rightarrow>
     (case format_analysis_reply (py env) analysis_json of
        Inl e \<Rightarrow> (Inl e, w1)
      | Inr reply_text \<Rightarrow>
     (case get_result_color (py env) analysis_json of
        Inl e \<Rightarrow> (Inl e, w1)
      | Inr color \<Rightarrow>
     (case (if color = ''RED''
            then record_red_flag env (user_id_str msg) content analysis_json reply_text w1
            else (Inr reply_text, w1)) of
        (Inl e, w2) \<Rightarrow> (Inl e, w2)
      | (Inr reply_text', w2) \<Rightarrow>
     (case bot_edit_message_text env reply_text' thinking_msg (Some ''Markdown'') w2 of
        (Inl e, w3) \<Rightarrow> (Inl e, w3)
      | (Inr u, w3) \<Rightarrow> (Inr (), logged (user_id_str msg) ''ANALYSIS_SUCCESS'' w3))))))"

text \<open>
  \<^verbatim>\<open>run_analysis\<close> (lines 179 to 194). The placeholder is sent before the \<^verbatim>\<open>try\<close>; the
  \<^verbatim>\<open>except Exception\<close> logs and edits the placeholder, and that edit is not guarded.
\<close>

definition run_analysis ::
  "env \<Rightarrow> message \<Rightarrow> string \<Rightarrow> image option \<Rightarrow> world \<Rightarrow> (pyexn + unit) \<times> world" where
  "run_analysis env msg content img w =
     (case bot_reply_to env msg ANALYZING_TEXT None w of
        (Inl e, w1) \<Rightarrow> (Inl e, w1)
      | (Inr thinking_msg, w1) \<Rightarrow>
          (case run_analysis_try env msg content img thinking_msg w1 of
             (Inr u, w2) \<Rightarrow> (Inr (), w2)
           | (Inl e, w2) \<Rightarrow>
               bot_edit_message_text env ANALYSIS_ERROR_TEXT thinking_msg None
                 (logged (user_id_str msg) ''ERROR'' w2)))"

section \<open>Handlers\<close>

text \<open>\<^verbatim>\<open>send_welcome\<close> (lines 198 to 209).\<close>

definition send_welcome :: "env \<Rightarrow> message \<Rightarrow> world \<Rightarrow> (pyexn + unit) \<times> world" where
  "send_welcome env msg w =
     (Inr (), logged (user_id_str msg) ''COMMAND_START''
                (send_safe_reply env msg WELCOME_TEXT (Some ''Markdown'') w))"

text \<open>
  \<^verbatim>\<open>search_command\<close> (lines 212 to 219). The \<^verbatim>\<open>except IndexError\<close> also covers the call of
  \<^verbatim>\<open>run_analysis\<close> inside the \<^verbatim>\<open>try\<close>.
\<close>

definition search_command :: "env \<Rightarrow> message \<Rightarrow> world \<Rightarrow> (pyexn + unit) \<times> world" where
  "search_command env msg w =
     (case (case after_first_space (msg_text msg) of
              Inl e \<Rightarrow> (Inl e, w)
            | Inr content_to_analyze \<Rightarrow> run_analysis env msg content_to_analyze None w) of
        (Inl e, w1) \<Rightarrow> if e = IndexError then run_analysis env msg [] None w1 else (Inl e, w1)
      | (Inr u, w1) \<Rightarrow> (Inr (), w1))"

text \<open>\<^verbatim>\<open>complaint_cmd\<close> (lines 222 to 232).\<close>

definition NO_RED_FLAG_TEXT :: string where
  "NO_RED_FLAG_TEXT =
     ''No '' @ APOSTROPHE @ ''Red Flag'' @ APOSTROPHE @ '' text found. Run '' @ BACKTICK @ ''/search''
     @ BACKTICK @ '' first.''"

definition complaint_reply :: "builtins \<Rightarrow> json \<Rightarrow> string" where
  "complaint_reply bi complaint =
     MEMO_ICON @ '' **Complaint Text:**'' @ NL @ NL @ BACKTICK @ py_fmt bi complaint @ BACKTICK
     @ NL @ NL @ ''_Copy this to report._''"

definition complaint_cmd :: "env \<Rightarrow> message \<Rightarrow> world \<Rightarrow> (pyexn + unit) \<times> world" where
  "complaint_cmd env msg w =
     (case bot_user_data w of
        JDict s \<Rightarrow>
          (case dget s (user_id_str msg) (JDict []) of
             JDict r \<Rightarrow>
               (let complaint = dget r ''last_complaint'' JNull;
                    w1 = (if truthy complaint
                          then send_safe_reply env msg (complaint_reply (py env) complaint)
                                 (Some ''Markdown'') w
                          else send_safe_reply env msg NO_RED_FLAG_TEXT None w)
                in (Inr (), logged (user_id_str msg) ''COMMAND_COMPLAINT'' w1))
           | _ \<Rightarrow> (Inl AttributeError, w))
      | _ \<Rightarrow> (Inl AttributeError, w))"

text \<open>
  \<^verbatim>\<open>handle_photo\<close> (lines 237 to 276). In the \<^verbatim>\<open>/search\<close> branch every exception, also one
  that leaves \<^verbatim>\<open>run_analysis\<close>, is caught (lines 257 to 259).
\<close>

definition PHOTO_SEARCH_ERROR_TEXT :: string where
  "PHOTO_SEARCH_ERROR_TEXT = CROSS_ICON @ '' Error processing your image search request.''"

definition DESCRIBING_TEXT :: string where
  "DESCRIBING_TEXT = PICTURE_ICON @ '' Analyzing image for a description...''"

definition DESCRIBE_ERROR_TEXT :: string where
  "DESCRIBE_ERROR_TEXT = CROSS_ICON @ '' Error describing the image.''"

definition photo_search_try ::
  "env \<Rightarrow> message \<Rightarrow> string \<Rightarrow> world \<Rightarrow> (pyexn + unit) \<times> world" where
  "photo_search_try env msg caption w =
     (let content_to_analyze =
            (case after_first_space caption of Inr rest \<Rightarrow> rest | Inl e \<Rightarrow> [])
      in case fetch_photo env msg w of
           (Inl e, w1) \<Rightarrow> (Inl e, w1)
         | (Inr img, w1) \<Rightarrow> run_analysis env msg content_to_analyze (Some img) w1)"

definition photo_describe_try ::
  "env \<Rightarrow> message \<Rightarrow> string \<Rightarrow> nat \<Rightarrow> world \<Rightarrow> (pyexn + unit) \<times> world" where
  "photo_describe_try env msg caption thinking_msg w =
     (case fetch_photo env msg w of
        (Inl e, w1) \<Rightarrow> (Inl e, w1)
      | (Inr img, w1) \<Rightarrow>
          (case call_gemini_for_image_description env img caption w1 of
             (analysis_result, w2) \<Rightarrow>
               (case bot_edit_message_text env analysis_result thinking_msg (Some ''Markdown'') w2 of
                  (Inl e, w3) \<Rightarrow> (Inl e, w3)
                | (Inr u, w3) \<Rightarrow>
                    (Inr (), logged (user_id_str msg) ''IMAGE_DESCRIPTION_SUCCESS'' w3))))"

definition handle_photo :: "env \<Rightarrow> message \<Rightarrow> world \<Rightarrow> (pyexn + unit) \<times> world" where
  "handle_photo env msg w =
     (let caption = (case msg_caption msg of None \<Rightarrow> [] | Some c \<Rightarrow> c)
      in if startswith (py_lower (py_strip caption)) ''/search''
         then
           (case photo_search_try env msg caption w of
              (Inr u, w1) \<Rightarrow> (Inr (), w1)
            | (Inl e, w1) \<Rightarrow>
                (Inr (), send_safe_reply env msg PHOTO_SEARCH_ERROR_TEXT None
                           (logged (user_id_str msg) ''ERROR'' w1)))
         else
           (case bot_reply_to env msg DESCRIBING_TEXT None w of
              (Inl e, w1) \<Rightarrow> (Inl e, w1)
            | (Inr thinking_msg, w1) \<Rightarrow>
                (case photo_describe_try env msg caption thinking_msg w1 of
                   (Inr u, w2) \<Rightarrow> (Inr (), w2)
                 | (Inl e, w2) \<Rightarrow>
                     bot_edit_message_text env DESCRIBE_ERROR_TEXT thinking_msg None
                       (logged (user_id_str msg) ''ERROR'' w2))))"

text \<open>
  \<^verbatim>\<open>handle_chat\<close> (lines 279 to 295). On a \<^verbatim>\<open>bot_user_data\<close> that is not a dict, line 283 or
  line 284 raises \<^verbatim>\<open>TypeError\<close>. \<^verbatim>\<open>.get\<close> on line 285 needs the record to be a dict,
  \<^verbatim>\<open>history.extend\<close> on line 289 needs the history to be a list.
\<close>

definition user_turn :: "string \<Rightarrow> json" where
  "user_turn txt = JDict [(''role'', JStr ''user''), (''parts'', JList [JStr txt])]"

definition model_turn :: "string \<Rightarrow> json" where
  "model_turn response = JDict [(''role'', JStr ''model''), (''parts'', JList [JStr response])]"

definition handle_chat :: "env \<Rightarrow> message \<Rightarrow> world \<Rightarrow> (pyexn + unit) \<times> world" where
  "handle_chat env msg w =
     (let uid = user_id_str msg
      in case bot_user_data w of
        JDict s \<Rightarrow>
     (let s1 = (if map_of s uid = None
                then AList.update uid (JDict [(''history'', JList [])]) s else s);
          w1 = w\<lparr>bot_user_data := JDict s1\<rparr>
      in case dget s1 uid JNull of
        JDict r \<Rightarrow>
     (let history = dget r ''history'' (JList [])
      in case call_gemini_for_chat env (msg_text msg) history w1 of
        (response, w2) \<Rightarrow>
     (let w3 = send_safe_reply env msg response None w2
      in if \<not> py_in WARNING_ICON response
         then
           (case history of
              JList h \<Rightarrow>
                (let extended = h @ [user_turn (msg_text msg), model_turn response];
                     store = JDict (AList.update uid
                               (JDict (AList.update ''history''
                                  (JList (last_n CHAT_HISTORY_LIMIT extended)) r)) s1);
                     w4 = save_user_data store (w3\<lparr>bot_user_data := store\<rparr>)
                 in (Inr (), logged uid ''CHAT_MESSAGE'' w4))
            | _ \<Rightarrow> (Inl AttributeError, w3))
         else (Inr (), logged uid ''CHAT_MESSAGE'' w3)))
      | _ \<Rightarrow> (Inl AttributeError, w1))
      | _ \<Rightarrow> (Inl TypeError, w))"

section \<open>Dispatch\<close>

text \<open>
  The library decides which handler receives an update, in the order of registration:
  the commands \<^verbatim>\<open>/start\<close> and \<^verbatim>\<open>/help\<close>, \<^verbatim>\<open>/search\<close>, \<^verbatim>\<open>/complaint\<close>, a photo, any other text.
  An exception that leaves a handler does not stop the bot (\<^verbatim>\<open>infinity_polling\<close>): the next
  update is handled in the state the handler left.
\<close>

datatype update =
    StartCommand message
  | SearchCommand message
  | ComplaintCommand message
  | Photo message
  | TextMessage message

definition handle_update :: "env \<Rightarrow> update \<Rightarrow> world \<Rightarrow> (pyexn + unit) \<times> world" where
  "handle_update env u w =
     (case u of
        StartCommand msg \<Rightarrow> send_welcome env msg w
      | SearchCommand msg \<Rightarrow> search_command env msg w
      | ComplaintCommand msg \<Rightarrow> complaint_cmd env msg w
      | Photo msg \<Rightarrow> handle_photo env msg w
      | TextMessage msg \<Rightarrow> handle_chat env msg w)"


section \<open>Notions of the specification\<close>

text \<open>
  The two rounding policies that the specification of the confidence bar mentions, for
  \<open>confidence / 10\<close> with an integer confidence: a tie goes to the even neighbour, or a tie goes
  up.
\<close>

definition round_half_even_div10 :: "int \<Rightarrow> int" where
  "round_half_even_div10 c = (if c mod 10 = 5 \<and> even (c div 10) then c div 10 else (c + 5) div 10)"

definition round_half_up_div10 :: "int \<Rightarrow> int" where
  "round_half_up_div10 c = (c + 5) div 10"

text \<open>
  What the store holds for a user, read the way the handlers read it: the history
  (line 285, empty when there is none) and the last complaint (line 226).
\<close>

definition history_of :: "string \<Rightarrow> json \<Rightarrow> json list" where
  "history_of uid store =
     (case store of
        JDict s \<Rightarrow>
          (case dget s uid (JDict []) of
             JDict r \<Rightarrow> (case dget r ''history'' (JList []) of JList h \<Rightarrow> h | _ \<Rightarrow> [])
           | _ \<Rightarrow> [])
      | _ \<Rightarrow> [])"

definition last_complaint_of :: "string \<Rightarrow> json \<Rightarrow> json option" where
  "last_complaint_of uid store =
     (case store of
        JDict s \<Rightarrow>
          (case dget s uid (JDict []) of
             JDict r \<Rightarrow> map_of r ''last_complaint''
           | _ \<Rightarrow> None)
      | _ \<Rightarrow> None)"

text \<open>
  The store is writable for a user when line 187 can store a complaint for the user: it is a
  dict and the record of the user is absent or a dict. It is usable when, in addition, the
  history in the record is absent or a list, so that line 289 can extend it.
\<close>

definition writable_for :: "string \<Rightarrow> json \<Rightarrow> bool" where
  "writable_for uid store =
     (case store of
        JDict s \<Rightarrow> (case dget s uid (JDict []) of JDict r \<Rightarrow> True | _ \<Rightarrow> False)
      | _ \<Rightarrow> False)"

definition usable_for :: "string \<Rightarrow> json \<Rightarrow> bool" where
  "usable_for uid store =
     (case store of
        JDict s \<Rightarrow>
          (case dget s uid (JDict []) of
             JDict r \<Rightarrow> (case dget r ''history'' (JList []) of JList h \<Rightarrow> True | _ \<Rightarrow> False)
           | _ \<Rightarrow> False)
      | _ \<Rightarrow> False)"

text \<open>
  Whether a user has a record, and the store with the empty record of line 284 added.
\<close>

definition has_record :: "string \<Rightarrow> json \<Rightarrow> bool" where
  "has_record uid store = (case store of JDict s \<Rightarrow> map_of s uid \<noteq> None | _ \<Rightarrow> False)"

definition with_empty_record :: "string \<Rightarrow> json \<Rightarrow> json" where
  "with_empty_record uid store =
     (case store of
        JDict s \<Rightarrow> JDict (AList.update uid (JDict [(''history'', JList [])]) s)
      | _ \<Rightarrow> store)"



text \<open>
  How far an analysis request gets before anything is stored: the placeholder was sent, the
  call of line 183 returned a verdict, line 184 formatted it and line 185 found its colour.
  The value is that colour and the verdict; \<open>None\<close> when an exception came first.
\<close>

definition classified ::
  "env \<Rightarrow> message \<Rightarrow> string \<Rightarrow> image option \<Rightarrow> world \<Rightarrow> (string \<times> json) option" where
  "classified env msg content img w =
     (case bot_reply_to env msg ANALYZING_TEXT None w of
        (Inl e, w1) \<Rightarrow> None
      | (Inr thinking_msg, w1) \<Rightarrow>
          (case call_gemini_for_structured_analysis env content img w1 of
             (Inl e, w2) \<Rightarrow> None
           | (Inr j, w2) \<Rightarrow>
               (case format_analysis_reply (py env) j of
                  Inl e \<Rightarrow> None
                | Inr reply_text \<Rightarrow>
                    (case get_result_color (py env) j of
                       Inl e \<Rightarrow> None
                     | Inr color \<Rightarrow> Some (color, j)))))"

text \<open>
  The store that an analysis request writes, if it writes one: the request was classified
  red and line 187 could store the complaint.
\<close>

definition red_flag_store ::
  "env \<Rightarrow> message \<Rightarrow> string \<Rightarrow> image option \<Rightarrow> world \<Rightarrow> json option" where
  "red_flag_store env msg content img w =
     (case classified env msg content img w of
        Some (color, JDict d) \<Rightarrow>
          if color = ''RED''
          then (case set_last_complaint (bot_user_data w) (user_id_str msg)
                       (complaint_text (py env) content d) of
                  Inr store \<Rightarrow> Some store
                | Inl e \<Rightarrow> None)
          else None
      | _ \<Rightarrow> None)"

text \<open>Two states hold the same user data, in memory and in the file.\<close>

definition same_user_data :: "world \<Rightarrow> world \<Rightarrow> bool" where
  "same_user_data w w' =
     (bot_user_data w' = bot_user_data w \<and> user_data_file w' = user_data_file w)"

text \<open>
  An analysis request fails, in the sense of the specification, when the placeholder was
  sent and the call of line 183 raises.
\<close>

definition analysis_failed :: "env \<Rightarrow> message \<Rightarrow> string \<Rightarrow> image option \<Rightarrow> world \<Rightarrow> bool" where
  "analysis_failed env msg content img w =
     (case bot_reply_to env msg ANALYZING_TEXT None w of
        (Inl e, w1) \<Rightarrow> False
      | (Inr thinking_msg, w1) \<Rightarrow>
          isl (fst (call_gemini_for_structured_analysis env content img w1)))"

text \<open>
  The store holds a complaint for a user when \<^verbatim>\<open>/complaint\<close> would send it: line 226 finds a
  value under \<^verbatim>\<open>last_complaint\<close> and line 227 finds it true. A missing value, \<^verbatim>\<open>None\<close> and the
  empty string are no complaint.
\<close>

definition holds_complaint :: "string \<Rightarrow> json \<Rightarrow> bool" where
  "holds_complaint uid store =
     (case last_complaint_of uid store of Some c \<Rightarrow> truthy c | None \<Rightarrow> False)"

text \<open>The answer that \<^verbatim>\<open>handle_chat\<close> gets on line 286 for a message in a given state.\<close>

definition chat_response :: "env \<Rightarrow> message \<Rightarrow> world \<Rightarrow> string" where
  "chat_response env msg w =
     fst (call_gemini_for_chat env (msg_text msg)
            (JList (history_of (user_id_str msg) (bot_user_data w))) w)"

text \<open>
  A chat message is remembered when the store is usable for its sender and the answer does
  not contain the warning sign.
\<close>

definition chat_remembered :: "env \<Rightarrow> message \<Rightarrow> world \<Rightarrow> bool" where
  "chat_remembered env msg w =
     (usable_for (user_id_str msg) (bot_user_data w)
      \<and> \<not> py_in WARNING_ICON (chat_response env msg w))"



section \<open>Scenarios\<close>

text \<open>
  Concrete values for the examples below: built-ins that accept no string as a number and
  parse every text into a given document, verdicts of the model, and a user with her
  messages.
\<close>

definition parsing_to :: "json option \<Rightarrow> builtins" where
  "parsing_to doc =
     \<lparr>float_of_str = (\<lambda>s. None), int_of_str = (\<lambda>s. None), str_of = (\<lambda>v. []),
      json_loads = (\<lambda>s. doc)\<rparr>"

definition scam_fields :: "(string \<times> json) list" where
  "scam_fields =
     [(''result'', JStr ''FAKE''), (''confidence'', JInt 80), (''reason'', JStr ''Lottery scam''),
      (''why_card_en'', JStr ''Nobody gives away phones.''), (''why_card_hi'', JStr ''-''),
      (''red_flags'', JList [JStr ''Urgent Action Required''])]"

definition scam_verdict :: json where
  "scam_verdict = JDict scam_fields"

definition second_fields :: "(string \<times> json) list" where
  "second_fields =
     [(''result'', JStr ''FAKE''), (''confidence'', JInt 90), (''reason'', JStr ''Phishing link''),
      (''red_flags'', JList [])]"

definition second_verdict :: json where
  "second_verdict = JDict second_fields"

definition quarter_verdict :: json where
  "quarter_verdict = JDict [(''result'', JStr ''FAKE''), (''confidence'', JInt 25)]"

definition alice :: message where
  "alice = \<lparr>from_user_id = 7, msg_text = ''/search'', msg_caption = None\<rparr>"

definition alice_says :: "string \<Rightarrow> message" where
  "alice_says txt = \<lparr>from_user_id = 7, msg_text = txt, msg_caption = None\<rparr>"

text \<open>
  A model that always answers with a text; a model that always raises; a model that answers
  with one verdict first and with another from then on. Telegram accepts every call and the
  log can be appended. In the last environment the model always raises and the log cannot
  be appended.
\<close>

definition answering :: "string \<Rightarrow> json option \<Rightarrow> env" where
  "answering txt doc =
     \<lparr>py = parsing_to doc, gemini = (\<lambda>n rq. GenText txt), telegram = (\<lambda>n c. True),
      download = (\<lambda>n m. None), log_appends = (\<lambda>n who action. True)\<rparr>"

definition model_down :: env where
  "model_down =
     \<lparr>py = parsing_to None, gemini = (\<lambda>n rq. GenRaises), telegram = (\<lambda>n c. True),
      download = (\<lambda>n m. None), log_appends = (\<lambda>n who action. True)\<rparr>"

definition two_verdicts :: env where
  "two_verdicts =
     \<lparr>py = \<lparr>float_of_str = (\<lambda>s. None), int_of_str = (\<lambda>s. None), str_of = (\<lambda>v. []),
             json_loads = (\<lambda>s. if s = ''1'' then Some scam_verdict else Some second_verdict)\<rparr>,
      gemini = (\<lambda>n rq. GenText (if n = 0 then ''1'' else ''2'')), telegram = (\<lambda>n c. True),
      download = (\<lambda>n m. None), log_appends = (\<lambda>n who action. True)\<rparr>"

definition log_down :: env where
  "log_down =
     \<lparr>py = parsing_to None, gemini = (\<lambda>n rq. GenRaises), telegram = (\<lambda>n c. True),
      download = (\<lambda>n m. None), log_appends = (\<lambda>n who action. False)\<rparr>"

definition fresh :: world where
  "fresh =
     \<lparr>bot_user_data = JDict [], user_data_file = Absent, bot_logs = [], gemini_calls = [],
      telegram_calls = [], downloads = []\<rparr>"

text \<open>The reply to the verdict for empty content (lines 93 to 95), written out.\<close>

definition NO_CONTENT_REPLY :: string where
  "NO_CONTENT_REPLY =
     WARNING_ICON @ '' *Result: Unsure* (Yellow Flag)'' @ NL @ NL @ ''*Confidence:* ''
     @ concat (replicate 10 CELL_EMPTY) @ '' (0%)'' @ NL @ ''*Reason:* No content provided.''
     @ NL @ NL @ FLAG_EN @ '' *Summary:*'' @ NL @ ''> No content to analyze.'' @ NL @ NL
     @ FLAG_HI @ '' *'' @ SUMMARY_HI @ '':*'' @ NL @ ''> '' @ WHY_HI_NO_CONTENT @ NL"

section \<open>Classification\<close>

lemma py_float_int: "\<bar>c\<bar> < float_overflow \<Longrightarrow> py_float bi (JInt c) = Inr (Finite (of_int c))"
  by (simp add: py_float_def)

lemma float_ge_int: "float_ge (Finite (of_int c)) t = (t \<le> c)"
  by (simp add: float_ge_def)

lemma py_int_int: "py_int bi (JInt c) = Inr c"
  by (simp add: py_int_def)

text \<open>
  Claim C1. On a verdict whose result is a string and whose confidence is an integer (of a
  size that \<^verbatim>\<open>float\<close> accepts, which covers 0 to 100 by far), \<^verbatim>\<open>get_result_color\<close> returns a
  colour and raises nothing: \<open>RED\<close> exactly for \<open>FAKE\<close> with confidence at least 65, \<open>GREEN\<close>
  exactly for \<open>REAL\<close> with confidence at least 60, \<open>YELLOW\<close> otherwise. The other fields of
  the verdict play no part.
\<close>

theorem get_result_color_classifies:
  assumes "map_of d ''result'' = Some (JStr r)"
    and "map_of d ''confidence'' = Some (JInt c)"
    and "\<bar>c\<bar> < float_overflow"
  shows "get_result_color bi (JDict d) =
           Inr (if r = ''FAKE'' \<and> 65 \<le> c then ''RED''
                else if r = ''REAL'' \<and> 60 \<le> c then ''GREEN''
                else ''YELLOW'')"
  using assms
  by (simp add: get_result_color_def dget_def py_float_int float_ge_int
      CONFIDENCE_THRESHOLD_FAKE_def CONFIDENCE_THRESHOLD_REAL_def)

text \<open>The five values that the specification lists.\<close>

theorem get_result_color_classifies_witness:
  "get_result_color (parsing_to None) (JDict [(''result'', JStr ''FAKE''), (''confidence'', JInt 65)]) = Inr ''RED''
   \<and> get_result_color (parsing_to None) (JDict [(''result'', JStr ''FAKE''), (''confidence'', JInt 64)]) = Inr ''YELLOW''
   \<and> get_result_color (parsing_to None) (JDict [(''result'', JStr ''REAL''), (''confidence'', JInt 60)]) = Inr ''GREEN''
   \<and> get_result_color (parsing_to None) (JDict [(''result'', JStr ''REAL''), (''confidence'', JInt 59)]) = Inr ''YELLOW''
   \<and> get_result_color (parsing_to None) (JDict [(''result'', JStr ''UNSURE''), (''confidence'', JInt 100)]) = Inr ''YELLOW''"
  using
    get_result_color_classifies [of "[(''result'', JStr ''FAKE''), (''confidence'', JInt 65)]" "''FAKE''" 65 "parsing_to None"]
    get_result_color_classifies [of "[(''result'', JStr ''FAKE''), (''confidence'', JInt 64)]" "''FAKE''" 64 "parsing_to None"]
    get_result_color_classifies [of "[(''result'', JStr ''REAL''), (''confidence'', JInt 60)]" "''REAL''" 60 "parsing_to None"]
    get_result_color_classifies [of "[(''result'', JStr ''REAL''), (''confidence'', JInt 59)]" "''REAL''" 59 "parsing_to None"]
    get_result_color_classifies [of "[(''result'', JStr ''UNSURE''), (''confidence'', JInt 100)]" "''UNSURE''" 100 "parsing_to None"]
  by (simp add: float_overflow_def)

section \<open>The confidence bar\<close>

lemma floor_div10: "\<lfloor>(of_int c :: rat) / 10\<rfloor> = c div 10"
  using floor_divide_of_int_eq [of c 10, where ?'a = rat] by simp

lemma frac_div10: "(of_int c :: rat) / 10 - of_int (c div 10) = of_int (c mod 10) / 10"
proof -
  have "c = 10 * (c div 10) + c mod 10" by simp
  then have "(of_int c :: rat) = 10 * of_int (c div 10) + of_int (c mod 10)"
    by (metis of_int_add of_int_mult of_int_numeral)
  then show ?thesis by (simp add: field_simps)
qed

lemma below_half: "((of_int m :: rat) / 10 < 1 / 2) = (m < 5)"
proof -
  have "((of_int m :: rat) / 10 < 1 / 2) = ((of_int m :: rat) < of_int 5)" by simp
  then show ?thesis by (simp only: of_int_less_iff)
qed

lemma above_half: "(1 / 2 < (of_int m :: rat) / 10) = (5 < m)"
proof -
  have "(1 / 2 < (of_int m :: rat) / 10) = ((of_int 5 :: rat) < of_int m)" by simp
  then show ?thesis by (simp only: of_int_less_iff)
qed

lemma div10_decompose:
  fixes q m :: int
  assumes "0 \<le> m" "m < 10"
  shows "(10 * q + m) div 10 = q"
  using assms by (simp add: div_pos_pos_trivial)

lemma half_up_cases:
  "(c + 5) div 10 = (if c mod 10 < 5 then c div 10 else c div (10::int) + 1)"
proof -
  define q where "q = c div 10"
  define m where "m = c mod 10"
  have c: "c = 10 * q + m" by (simp add: q_def m_def)
  have m: "0 \<le> m" "m < 10" by (simp_all add: m_def)
  show ?thesis
  proof (cases "m < 5")
    case True
    have "c + 5 = 10 * q + (m + 5)" using c by simp
    then have "(c + 5) div 10 = q"
      using div10_decompose [of "m + 5" q] m True by simp
    then show ?thesis using True by (simp add: q_def m_def)
  next
    case False
    have "c + 5 = 10 * (q + 1) + (m - 5)" using c by simp
    then have "(c + 5) div 10 = q + 1"
      using div10_decompose [of "m - 5" "q + 1"] m False by simp
    then show ?thesis using False by (simp add: q_def m_def)
  qed
qed

text \<open>Python's \<^verbatim>\<open>round\<close> on a tenth of an integer is rounding with ties to even.\<close>

lemma py_round_div10: "py_round (of_int c / 10) = round_half_even_div10 c"
proof -
  have "py_round (of_int c / 10) =
     (if c mod 10 < 5 then c div 10
      else if 5 < c mod 10 then c div 10 + 1
      else if even (c div 10) then c div 10 else c div 10 + 1)"
    unfolding py_round_def Let_def floor_div10 frac_div10 below_half above_half by simp
  also have "\<dots> = round_half_even_div10 c"
    unfolding round_half_even_div10_def half_up_cases by auto
  finally show ?thesis .
qed

lemma round_div10_exact:
  "\<bar>c\<bar> < 10 * float_overflow \<Longrightarrow> round_div10 c = Inr (round_half_even_div10 c)"
  by (simp add: round_div10_def py_round_div10)

lemma round_half_even_range:
  assumes "0 \<le> c" "c \<le> 100"
  shows "0 \<le> round_half_even_div10 c \<and> round_half_even_div10 c \<le> 10"
proof -
  define q where "q = c div 10"
  define m where "m = c mod 10"
  have c: "c = 10 * q + m" by (simp add: q_def m_def)
  have m: "0 \<le> m" "m < 10" by (simp_all add: m_def)
  have q0: "0 \<le> q" using assms(1) by (simp add: q_def pos_imp_zdiv_nonneg_iff)
  have q10: "q \<le> 10" using assms(2) c m by linarith
  have q9: "5 \<le> m \<Longrightarrow> q \<le> 9" using assms(2) c by linarith
  have "round_half_even_div10 c = q \<or> (5 \<le> m \<and> round_half_even_div10 c = q + 1)"
    unfolding round_half_even_div10_def half_up_cases q_def [symmetric] m_def [symmetric]
    by auto
  then show ?thesis using q0 q10 q9 by auto
qed

lemma confidence_bar_cells:
  "confidence_bar f = concat (replicate (nat f) CELL_FILLED @ replicate (nat (10 - f)) CELL_EMPTY)"
  by (simp add: confidence_bar_def py_repeat_def)

lemma ten_cells:
  "0 \<le> f \<Longrightarrow> f \<le> 10 \<Longrightarrow>
   length (replicate (nat f) CELL_FILLED @ replicate (nat (10 - f)) CELL_EMPTY) = 10"
  by simp

lemma reply_body_bar:
  "\<exists>rest. reply_body bi d title bar c @ suffix =
      title @ NL @ NL @ ''*Confidence:* '' @ bar @ '' ('' @ str_int c @ ''%)'' @ rest"
  unfolding reply_body_def append_assoc by (rule exI, rule refl)

text \<open>What a reply is made of when \<^verbatim>\<open>format_analysis_reply\<close> returns one.\<close>

lemma format_analysis_reply_shape:
  assumes "format_analysis_reply bi (JDict d) = Inr reply"
  shows "\<exists>color r confidence filled suffix.
           get_result_color bi (JDict d) = Inr color
         \<and> py_int bi (dget d ''confidence'' (JInt 0)) = Inr confidence
         \<and> round_div10 confidence = Inr filled
         \<and> reply = reply_body bi d (title_line color (py_title r)) (confidence_bar filled)
                      confidence @ suffix"
proof -
  obtain color where color: "get_result_color bi (JDict d) = Inr color"
    using assms by (cases "get_result_color bi (JDict d)") (simp_all add: format_analysis_reply_def)
  obtain r where r: "dget d ''result'' (JStr ''UNSURE'') = JStr r"
    using assms color
    by (cases "dget d ''result'' (JStr ''UNSURE'')") (simp_all add: format_analysis_reply_def)
  obtain confidence where c: "py_int bi (dget d ''confidence'' (JInt 0)) = Inr confidence"
    using assms color r
    by (cases "py_int bi (dget d ''confidence'' (JInt 0))")
      (simp_all add: format_analysis_reply_def Let_def)
  obtain filled where f: "round_div10 confidence = Inr filled"
    using assms color r c
    by (cases "round_div10 confidence") (simp_all add: format_analysis_reply_def Let_def)
  define body where
    "body = reply_body bi d (title_line color (py_title r)) (confidence_bar filled) confidence"
  have "reply = body @ [] \<or> (\<exists>flags. reply = body @ red_flag_lines bi flags)"
  proof (cases "truthy (dget d ''red_flags'' JNull)")
    case False
    with assms show ?thesis
      by (simp add: format_analysis_reply_def color r c f Let_def body_def)
  next
    case True
    with assms show ?thesis
      by (cases "py_iter (dget d ''red_flags'' JNull)")
        (auto simp: format_analysis_reply_def color r c f Let_def body_def)
  qed
  then show ?thesis
    using color c f unfolding body_def by blast
qed

text \<open>The reply to a verdict \<open>FAKE\<close> with confidence 25 and no other field.\<close>

lemma quarter_reply:
  "format_analysis_reply (parsing_to None) quarter_verdict =
     Inr (WARNING_ICON @ '' *Result: Fake* (Yellow Flag)'' @ NL @ NL @ ''*Confidence:* ''
          @ concat (replicate 2 CELL_FILLED @ replicate 8 CELL_EMPTY) @ '' (25%)'' @ NL
          @ ''*Reason:* N/A'' @ NL @ NL @ FLAG_EN @ '' *Summary:*'' @ NL @ ''> N/A'' @ NL @ NL
          @ FLAG_HI @ '' *'' @ SUMMARY_HI @ '':*'' @ NL @ ''> N/A'' @ NL)"
  by code_simp

text \<open>
  Claim C2, as the program has it. For a verdict with an integer confidence from 0 to 100,
  the reply carries, after the title, a bar of exactly 10 cells: the first
  \<open>round(confidence / 10)\<close> cells are filled and the others are empty, where \<open>round\<close> sends a
  tie to the even neighbour (Python's \<^verbatim>\<open>round\<close>), not upwards.
\<close>

theorem confidence_bar_ten_cells_half_even:
  assumes "map_of d ''confidence'' = Some (JInt c)"
    and "0 \<le> c" and "c \<le> 100"
    and "format_analysis_reply bi (JDict d) = Inr reply"
  shows "round_div10 c = Inr (round_half_even_div10 c)
       \<and> length (replicate (nat (round_half_even_div10 c)) CELL_FILLED
                 @ replicate (nat (10 - round_half_even_div10 c)) CELL_EMPTY) = 10
       \<and> (\<exists>title rest.
             reply = title @ NL @ NL @ ''*Confidence:* ''
               @ concat (replicate (nat (round_half_even_div10 c)) CELL_FILLED
                         @ replicate (nat (10 - round_half_even_div10 c)) CELL_EMPTY)
               @ '' ('' @ str_int c @ ''%)'' @ rest)"
proof -
  have small: "\<bar>c\<bar> < 10 * float_overflow"
    using assms(2,3) by (simp add: float_overflow_def)
  have conf: "py_int bi (dget d ''confidence'' (JInt 0)) = Inr c"
    using assms(1) by (simp add: dget_def py_int_int)
  from format_analysis_reply_shape [OF assms(4)] obtain color r suffix where
    "reply = reply_body bi d (title_line color (py_title r))
               (confidence_bar (round_half_even_div10 c)) c @ suffix"
    using conf round_div10_exact [OF small] by auto
  then have "\<exists>title rest.
      reply = title @ NL @ NL @ ''*Confidence:* '' @ confidence_bar (round_half_even_div10 c)
        @ '' ('' @ str_int c @ ''%)'' @ rest"
    using reply_body_bar by blast
  then have bar: "\<exists>title rest.
      reply = title @ NL @ NL @ ''*Confidence:* ''
        @ concat (replicate (nat (round_half_even_div10 c)) CELL_FILLED
                  @ replicate (nat (10 - round_half_even_div10 c)) CELL_EMPTY)
        @ '' ('' @ str_int c @ ''%)'' @ rest"
    unfolding confidence_bar_cells .
  have len: "length (replicate (nat (round_half_even_div10 c)) CELL_FILLED
                 @ replicate (nat (10 - round_half_even_div10 c)) CELL_EMPTY) = 10"
    using ten_cells round_half_even_range [OF assms(2,3)] by blast
  show ?thesis
    using round_div10_exact [OF small] len bar by blast
qed

theorem confidence_bar_ten_cells_half_even_witness:
  "round_div10 25 = Inr 2
   \<and> (\<exists>title rest.
         WARNING_ICON @ '' *Result: Fake* (Yellow Flag)'' @ NL @ NL @ ''*Confidence:* ''
          @ concat (replicate 2 CELL_FILLED @ replicate 8 CELL_EMPTY) @ '' (25%)'' @ NL
          @ ''*Reason:* N/A'' @ NL @ NL @ FLAG_EN @ '' *Summary:*'' @ NL @ ''> N/A'' @ NL @ NL
          @ FLAG_HI @ '' *'' @ SUMMARY_HI @ '':*'' @ NL @ ''> N/A'' @ NL
         = title @ NL @ NL @ ''*Confidence:* ''
           @ concat (replicate 2 CELL_FILLED @ replicate 8 CELL_EMPTY) @ '' ('' @ str_int 25 @ ''%)''
           @ rest)"
proof -
  have c: "map_of [(''result'', JStr ''FAKE''), (''confidence'', JInt 25)] ''confidence''
             = Some (JInt 25)"
    by simp
  have v: "round_half_even_div10 25 = 2"
    by (simp add: round_half_even_div10_def)
  show ?thesis
    using confidence_bar_ten_cells_half_even
      [OF c _ _ quarter_reply [unfolded quarter_verdict_def]]
    by (simp add: v)
qed

text \<open>
  Claim C2 as the specification states it fails at confidence 25: rounding a tie upwards
  gives 3 filled cells, the program fills 2.
\<close>

theorem confidence_bar_half_up_counterexample:
  "round_half_up_div10 25 = 3
   \<and> round_div10 25 = Inr 2
   \<and> format_analysis_reply (parsing_to None)
        (JDict [(''result'', JStr ''FAKE''), (''confidence'', JInt 25)]) =
       Inr (WARNING_ICON @ '' *Result: Fake* (Yellow Flag)'' @ NL @ NL @ ''*Confidence:* ''
          @ concat (replicate 2 CELL_FILLED @ replicate 8 CELL_EMPTY) @ '' (25%)'' @ NL
          @ ''*Reason:* N/A'' @ NL @ NL @ FLAG_EN @ '' *Summary:*'' @ NL @ ''> N/A'' @ NL @ NL
          @ FLAG_HI @ '' *'' @ SUMMARY_HI @ '':*'' @ NL @ ''> N/A'' @ NL)
   \<and> concat (replicate 2 CELL_FILLED @ replicate 8 CELL_EMPTY)
        \<noteq> concat (replicate 3 CELL_FILLED @ replicate 7 CELL_EMPTY)"
proof -
  have "round_half_up_div10 25 = 3"
    by (simp add: round_half_up_div10_def)
  moreover have "round_div10 25 = Inr 2"
    by code_simp
  moreover note quarter_reply [unfolded quarter_verdict_def]
  moreover have "concat (replicate 2 CELL_FILLED @ replicate 8 CELL_EMPTY)
        \<noteq> concat (replicate 3 CELL_FILLED @ replicate 7 CELL_EMPTY)"
    by code_simp
  ultimately show ?thesis by blast
qed

section \<open>Loading the store\<close>

text \<open>
  Claim C8, as the program has it. \<^verbatim>\<open>load_user_data\<close> returns the empty store when the file
  is absent or is not a JSON document, and the document itself when it is one. When the file
  is there but cannot be read, or is not UTF-8, the exception is not one of the two that the
  function catches: it leaves the function, and the process ends at line 56.
\<close>

theorem load_user_data_cases:
  "load_user_data Absent = Inr (JDict [])
   \<and> load_user_data Malformed = Inr (JDict [])
   \<and> load_user_data (Document v) = Inr v
   \<and> load_user_data Unreadable = Inl PermissionError
   \<and> load_user_data NotUtf8 = Inl UnicodeDecodeError
   \<and> bot_user_data (projr (start_bot Absent)) = JDict []
   \<and> bot_user_data (projr (start_bot Malformed)) = JDict []
   \<and> start_bot Unreadable = Inl PermissionError
   \<and> start_bot NotUtf8 = Inl UnicodeDecodeError"
  by (simp add: load_user_data_def json_load_def start_bot_def)

theorem load_user_data_cases_witness:
  "load_user_data Absent = Inr (JDict [])
   \<and> load_user_data Malformed = Inr (JDict [])
   \<and> load_user_data (Document (JDict [(''7'', JDict [(''history'', JList [])])])) =
       Inr (JDict [(''7'', JDict [(''history'', JList [])])])
   \<and> load_user_data Unreadable = Inl PermissionError
   \<and> load_user_data NotUtf8 = Inl UnicodeDecodeError
   \<and> start_bot Unreadable = Inl PermissionError
   \<and> start_bot NotUtf8 = Inl UnicodeDecodeError"
  using load_user_data_cases [of "JDict [(''7'', JDict [(''history'', JList [])])]"]
  by blast

text \<open>
  Claim C8 as the specification states it fails for an unreadable file: loading raises
  \<^verbatim>\<open>PermissionError\<close> and the bot does not start.
\<close>

theorem load_unreadable_counterexample:
  "load_user_data Unreadable \<noteq> Inr (JDict []) \<and> start_bot Unreadable = Inl PermissionError"
  by (simp add: load_user_data_def json_load_def start_bot_def)

section \<open>What the primitive operations leave alone\<close>

lemma logged_fields [simp]:
  "bot_user_data (logged who a w) = bot_user_data w"
  "user_data_file (logged who a w) = user_data_file w"
  "gemini_calls (logged who a w) = gemini_calls w"
  "telegram_calls (logged who a w) = telegram_calls w"
  "downloads (logged who a w) = downloads w"
  by (simp_all add: logged_def)

lemma telegram_api_fields [simp]:
  "bot_user_data (snd (telegram_api env c w)) = bot_user_data w"
  "user_data_file (snd (telegram_api env c w)) = user_data_file w"
  "gemini_calls (snd (telegram_api env c w)) = gemini_calls w"
  "telegram_calls (snd (telegram_api env c w)) =
     telegram_calls w @ [(c, telegram env (length (telegram_calls w)) c)]"
  "fst (telegram_api env c w) = telegram env (length (telegram_calls w)) c"
  by (simp_all add: telegram_api_def Let_def)

lemma bot_reply_to_fields [simp]:
  "bot_user_data (snd (bot_reply_to env msg txt mode w)) = bot_user_data w"
  "user_data_file (snd (bot_reply_to env msg txt mode w)) = user_data_file w"
  "gemini_calls (snd (bot_reply_to env msg txt mode w)) = gemini_calls w"
  "telegram_calls (snd (bot_reply_to env msg txt mode w)) =
     telegram_calls w @ [(ReplyTo msg txt mode, telegram env (length (telegram_calls w)) (ReplyTo msg txt mode))]"
  by (simp_all add: bot_reply_to_def telegram_api_def Let_def)

lemma bot_reply_to_result:
  "fst (bot_reply_to env msg txt mode w) =
     (if telegram env (length (telegram_calls w)) (ReplyTo msg txt mode)
      then Inr (length (telegram_calls w)) else Inl ApiTelegramException)"
  by (simp add: bot_reply_to_def telegram_api_def Let_def)

lemma bot_edit_message_text_fields [simp]:
  "bot_user_data (snd (bot_edit_message_text env txt m mode w)) = bot_user_data w"
  "user_data_file (snd (bot_edit_message_text env txt m mode w)) = user_data_file w"
  "gemini_calls (snd (bot_edit_message_text env txt m mode w)) = gemini_calls w"
  "telegram_calls (snd (bot_edit_message_text env txt m mode w)) =
     telegram_calls w @ [(EditMessageText txt m mode,
        telegram env (length (telegram_calls w)) (EditMessageText txt m mode))]"
  by (simp_all add: bot_edit_message_text_def telegram_api_def Let_def)

lemma bot_edit_message_text_result:
  "fst (bot_edit_message_text env txt m mode w) =
     (if telegram env (length (telegram_calls w)) (EditMessageText txt m mode)
      then Inr () else Inl ApiTelegramException)"
  by (simp add: bot_edit_message_text_def telegram_api_def Let_def)

lemma send_safe_reply_alt:
  "send_safe_reply env msg txt mode w =
     (case fst (bot_reply_to env msg txt mode w) of
        Inr sent \<Rightarrow> snd (bot_reply_to env msg txt mode w)
      | Inl e \<Rightarrow> logged (user_id_str msg) ''SEND_FAIL'' (snd (bot_reply_to env msg txt mode w)))"
  by (simp add: send_safe_reply_def split: prod.splits sum.splits)

lemma send_safe_reply_fields [simp]:
  "bot_user_data (send_safe_reply env msg txt mode w) = bot_user_data w"
  "user_data_file (send_safe_reply env msg txt mode w) = user_data_file w"
  "gemini_calls (send_safe_reply env msg txt mode w) = gemini_calls w"
  by (simp_all add: send_safe_reply_alt split: sum.splits)

lemma generate_content_fields [simp]:
  "bot_user_data (snd (generate_content env rq w)) = bot_user_data w"
  "user_data_file (snd (generate_content env rq w)) = user_data_file w"
  "telegram_calls (snd (generate_content env rq w)) = telegram_calls w"
  "gemini_calls (snd (generate_content env rq w)) = gemini_calls w @ [rq]"
  "fst (generate_content env rq w) = gemini env (length (gemini_calls w)) rq"
  by (simp_all add: generate_content_def)


section \<open>The structured analysis call\<close>


lemma log_event_fields [simp]:
  "bot_user_data (snd (log_event env who a w)) = bot_user_data w"
  "user_data_file (snd (log_event env who a w)) = user_data_file w"
  "gemini_calls (snd (log_event env who a w)) = gemini_calls w"
  "telegram_calls (snd (log_event env who a w)) = telegram_calls w"
  "downloads (snd (log_event env who a w)) = downloads w"
  by (simp_all add: log_event_def)

lemma structured_analysis_try_alt:
  "structured_analysis_try env query img w =
     (case gemini env (length (gemini_calls w)) (StructuredAnalysis query img) of
        GenRaises \<Rightarrow> (Inl GeminiError, snd (generate_content env (StructuredAnalysis query img) w))
      | GenBlocked \<Rightarrow> (Inl ValueError, snd (generate_content env (StructuredAnalysis query img) w))
      | GenText t \<Rightarrow>
          (case fst (log_event env ''SYSTEM'' ''RAW_GEMINI_ANALYSIS_RESPONSE''
                       (snd (generate_content env (StructuredAnalysis query img) w))) of
             Inl e \<Rightarrow>
               (Inl e, snd (log_event env ''SYSTEM'' ''RAW_GEMINI_ANALYSIS_RESPONSE''
                              (snd (generate_content env (StructuredAnalysis query img) w))))
           | Inr u \<Rightarrow>
               (case json_loads (py env) (py_strip t) of
                  None \<Rightarrow>
                    (Inl JSONDecodeError,
                     snd (log_event env ''SYSTEM'' ''RAW_GEMINI_ANALYSIS_RESPONSE''
                            (snd (generate_content env (StructuredAnalysis query img) w))))
                | Some j \<Rightarrow>
                    (Inr j,
                     snd (log_event env ''SYSTEM'' ''RAW_GEMINI_ANALYSIS_RESPONSE''
                            (snd (generate_content env (StructuredAnalysis query img) w)))))))"
proof -
  obtain g w1 where g: "generate_content env (StructuredAnalysis query img) w = (g, w1)"
    by (cases "generate_content env (StructuredAnalysis query img) w") blast
  then have g': "gemini env (length (gemini_calls w)) (StructuredAnalysis query img) = g"
    by (simp add: generate_content_def)
  obtain r w2 where l: "log_event env ''SYSTEM'' ''RAW_GEMINI_ANALYSIS_RESPONSE'' w1 = (r, w2)"
    by (cases "log_event env ''SYSTEM'' ''RAW_GEMINI_ANALYSIS_RESPONSE'' w1") blast
  show ?thesis
    unfolding structured_analysis_try_def g g' Let_def
    by (cases g; cases r) (simp_all add: g l split: option.splits)
qed

lemma structured_analysis_try_fields [simp]:
  "bot_user_data (snd (structured_analysis_try env query img w)) = bot_user_data w"
  "user_data_file (snd (structured_analysis_try env query img w)) = user_data_file w"
  "telegram_calls (snd (structured_analysis_try env query img w)) = telegram_calls w"
  by (simp_all add: structured_analysis_try_alt
      split: gemini_outcome.splits sum.splits option.splits)


lemma call_gemini_for_structured_analysis_alt:
  "call_gemini_for_structured_analysis env query img w =
     (if query = [] \<and> img = None then (Inr NO_CONTENT_VERDICT, w)
      else case fst (structured_analysis_try env query img w) of
             Inr j \<Rightarrow> (Inr j, snd (structured_analysis_try env query img w))
           | Inl e \<Rightarrow>
               (case fst (log_event env ''SYSTEM'' ''ERROR''
                            (snd (structured_analysis_try env query img w))) of
                  Inl e' \<Rightarrow>
                    (Inl e', snd (log_event env ''SYSTEM'' ''ERROR''
                                    (snd (structured_analysis_try env query img w))))
                | Inr u \<Rightarrow>
                    (Inr AI_ERROR_VERDICT,
                     snd (log_event env ''SYSTEM'' ''ERROR''
                            (snd (structured_analysis_try env query img w))))))"
proof -
  obtain r w1 where t: "structured_analysis_try env query img w = (r, w1)"
    by (cases "structured_analysis_try env query img w") blast
  obtain l w2 where l: "log_event env ''SYSTEM'' ''ERROR'' w1 = (l, w2)"
    by (cases "log_event env ''SYSTEM'' ''ERROR'' w1") blast
  show ?thesis
    unfolding call_gemini_for_structured_analysis_def t
    by (cases r; cases l) (simp_all add: l)
qed

lemma call_gemini_for_structured_analysis_fields [simp]:
  "bot_user_data (snd (call_gemini_for_structured_analysis env query img w)) = bot_user_data w"
  "user_data_file (snd (call_gemini_for_structured_analysis env query img w)) = user_data_file w"
  "telegram_calls (snd (call_gemini_for_structured_analysis env query img w)) = telegram_calls w"
  by (simp_all add: call_gemini_for_structured_analysis_alt split: sum.splits)











section \<open>Empty content\<close>

lemma no_content_color: "get_result_color bi NO_CONTENT_VERDICT = Inr ''YELLOW''"
  by (simp add: NO_CONTENT_VERDICT_def get_result_color_def dget_def py_float_def float_ge_def
      float_overflow_def CONFIDENCE_THRESHOLD_FAKE_def CONFIDENCE_THRESHOLD_REAL_def)

lemma no_content_reply: "format_analysis_reply bi NO_CONTENT_VERDICT = Inr NO_CONTENT_REPLY"
  by code_simp

lemma empty_content_call:
  "call_gemini_for_structured_analysis env [] None w = (Inr NO_CONTENT_VERDICT, w)"
  by (simp add: call_gemini_for_structured_analysis_def)

lemma run_analysis_try_empty:
  "run_analysis_try env msg [] None m w =
     (case bot_edit_message_text env NO_CONTENT_REPLY m (Some ''Markdown'') w of
        (Inl e, w3) \<Rightarrow> (Inl e, w3)
      | (Inr u, w3) \<Rightarrow> (Inr (), logged (user_id_str msg) ''ANALYSIS_SUCCESS'' w3))"
  by (simp add: run_analysis_try_def empty_content_call no_content_reply no_content_color)


lemma run_analysis_alt:
  "run_analysis env msg content img w =
     (case fst (bot_reply_to env msg ANALYZING_TEXT None w) of
        Inl e \<Rightarrow> (Inl e, snd (bot_reply_to env msg ANALYZING_TEXT None w))
      | Inr m \<Rightarrow>
          (case fst (run_analysis_try env msg content img m
                       (snd (bot_reply_to env msg ANALYZING_TEXT None w))) of
             Inr u \<Rightarrow> (Inr (), snd (run_analysis_try env msg content img m
                                  (snd (bot_reply_to env msg ANALYZING_TEXT None w))))
           | Inl e \<Rightarrow>
               bot_edit_message_text env ANALYSIS_ERROR_TEXT m None
                 (logged (user_id_str msg) ''ERROR''
                    (snd (run_analysis_try env msg content img m
                            (snd (bot_reply_to env msg ANALYZING_TEXT None w)))))))"
  by (simp add: run_analysis_def split: prod.splits sum.splits)

lemma run_analysis_try_empty_alt:
  "run_analysis_try env msg [] None m w =
     (case fst (bot_edit_message_text env NO_CONTENT_REPLY m (Some ''Markdown'') w) of
        Inl e \<Rightarrow> (Inl e, snd (bot_edit_message_text env NO_CONTENT_REPLY m (Some ''Markdown'') w))
      | Inr u \<Rightarrow> (Inr (), logged (user_id_str msg) ''ANALYSIS_SUCCESS''
                    (snd (bot_edit_message_text env NO_CONTENT_REPLY m (Some ''Markdown'') w))))"
  by (simp add: run_analysis_try_empty split: prod.splits sum.splits)

lemma run_analysis_empty_no_model_call:
  "gemini_calls (snd (run_analysis env msg [] None w)) = gemini_calls w"
  by (simp add: run_analysis_alt run_analysis_try_empty_alt split: sum.splits)

text \<open>
  Claim C6. For an empty text and no image the call of line 183 returns the verdict
  \<open>UNSURE\<close>, confidence 0, reason \<open>No content provided.\<close> and leaves the state as it was;
  a whole run of \<^verbatim>\<open>run_analysis\<close> on empty content makes no call to the model.
\<close>

theorem empty_content_short_circuits:
  "call_gemini_for_structured_analysis env [] None w =
     (Inr (JDict
        [(''result'', JStr ''UNSURE''),
         (''confidence'', JInt 0),
         (''reason'', JStr ''No content provided.''),
         (''why_card_en'', JStr ''No content to analyze.''),
         (''why_card_hi'', JStr WHY_HI_NO_CONTENT),
         (''red_flags'', JList [])]), w)
   \<and> gemini_calls (snd (run_analysis env msg [] None w)) = gemini_calls w"
  using empty_content_call [of env w] run_analysis_empty_no_model_call [of env msg w]
  by (simp add: NO_CONTENT_VERDICT_def)

theorem empty_content_short_circuits_witness:
  "call_gemini_for_structured_analysis model_down [] None fresh =
     (Inr (JDict
        [(''result'', JStr ''UNSURE''),
         (''confidence'', JInt 0),
         (''reason'', JStr ''No content provided.''),
         (''why_card_en'', JStr ''No content to analyze.''),
         (''why_card_hi'', JStr WHY_HI_NO_CONTENT),
         (''red_flags'', JList [])]), fresh)
   \<and> gemini_calls (snd (run_analysis model_down alice [] None fresh)) = []"
  using empty_content_short_circuits [of model_down fresh alice]
  by (simp add: fresh_def)





section \<open>A chat message\<close>

lemma call_gemini_for_chat_alt:
  "call_gemini_for_chat env query history w =
     (case py_last_n CHAT_HISTORY_LIMIT history of
        Inl e \<Rightarrow> (CHAT_ERROR_TEXT, logged ''SYSTEM'' ''ERROR'' w)
      | Inr recent \<Rightarrow>
          (case gemini env (length (gemini_calls w)) (ChatRequest query recent) of
             GenText t \<Rightarrow> (t, w\<lparr>gemini_calls := gemini_calls w @ [ChatRequest query recent]\<rparr>)
           | _ \<Rightarrow> (CHAT_ERROR_TEXT, logged ''SYSTEM'' ''ERROR''
                     (w\<lparr>gemini_calls := gemini_calls w @ [ChatRequest query recent]\<rparr>))))"
  by (simp add: call_gemini_for_chat_def generate_content_def
      split: sum.splits gemini_outcome.splits)

lemma call_gemini_for_chat_fields [simp]:
  "bot_user_data (snd (call_gemini_for_chat env query history w)) = bot_user_data w"
  "user_data_file (snd (call_gemini_for_chat env query history w)) = user_data_file w"
  by (simp_all add: call_gemini_for_chat_alt logged_def split: sum.splits gemini_outcome.splits)

lemma call_gemini_for_chat_response:
  "gemini_calls w' = gemini_calls w \<Longrightarrow>
   fst (call_gemini_for_chat env query history w') = fst (call_gemini_for_chat env query history w)"
  by (simp add: call_gemini_for_chat_alt split: sum.splits gemini_outcome.splits)


lemma handle_chat_not_dict:
  assumes "\<And>s. bot_user_data w \<noteq> JDict s"
  shows "handle_chat env msg w = (Inl TypeError, w)"
proof (cases "bot_user_data w")
  case (JDict s)
  then show ?thesis using assms by blast
qed (simp_all add: handle_chat_def)

text \<open>The store after line 284, and the record that line 285 reads.\<close>

lemma dget_update_same: "dget (AList.update k v al) k dflt = v"
  by (simp add: dget_def update_conv')

lemma dget_update_other: "k' \<noteq> k \<Longrightarrow> dget (AList.update k v al) k' dflt = dget al k' dflt"
  by (simp add: dget_def update_conv')

lemma handle_chat_record_not_dict:
  assumes "bot_user_data w = JDict s"
    and "map_of s (user_id_str msg) = Some v"
    and "\<And>r. v \<noteq> JDict r"
  shows "handle_chat env msg w = (Inl AttributeError, w)"
proof (cases v)
  case (JDict r)
  then show ?thesis using assms by blast
qed (simp_all add: handle_chat_def dget_def assms(1,2))

lemma handle_chat_record:
  assumes "bot_user_data w = JDict s"
    and "dget s1 (user_id_str msg) JNull = JDict r"
    and "s1 = (if map_of s (user_id_str msg) = None
               then AList.update (user_id_str msg) (JDict [(''history'', JList [])]) s else s)"
  shows "handle_chat env msg w =
     (let uid = user_id_str msg;
          w1 = w\<lparr>bot_user_data := JDict s1\<rparr>;
          history = dget r ''history'' (JList []);
          response = fst (call_gemini_for_chat env (msg_text msg) history w);
          w3 = send_safe_reply env msg response None
                 (snd (call_gemini_for_chat env (msg_text msg) history w1))
      in if \<not> py_in WARNING_ICON response
         then
           (case history of
              JList h \<Rightarrow>
                (let store = JDict (AList.update uid
                               (JDict (AList.update ''history''
                                  (JList (last_n CHAT_HISTORY_LIMIT
                                     (h @ [user_turn (msg_text msg), model_turn response]))) r)) s1)
                 in (Inr (), logged uid ''CHAT_MESSAGE''
                               (save_user_data store (w3\<lparr>bot_user_data := store\<rparr>))))
            | _ \<Rightarrow> (Inl AttributeError, w3))
         else (Inr (), logged uid ''CHAT_MESSAGE'' w3))"
proof -
  have r: "fst (call_gemini_for_chat env q h (w\<lparr>bot_user_data := x\<rparr>))
           = fst (call_gemini_for_chat env q h w)" for q h x
    by (rule call_gemini_for_chat_response) simp
  have d: "dget (if map_of s (user_id_str msg) = None
               then AList.update (user_id_str msg) (JDict [(''history'', JList [])]) s else s)
             (user_id_str msg) JNull = JDict r"
    using assms(2,3) by simp
  show ?thesis
    unfolding handle_chat_def Let_def assms(1) json.case d assms(3) case_prod_beta r
    by (rule refl)
qed


lemma usable_forD:
  assumes "usable_for uid store"
  obtains s r h where "store = JDict s" "dget s uid (JDict []) = JDict r"
    "dget r ''history'' (JList []) = JList h" "history_of uid store = h"
  using assms
  by (auto simp: usable_for_def history_of_def split: json.splits)

lemma chat_response_eq:
  assumes "bot_user_data w = JDict s" "dget s uid (JDict []) = JDict r"
    "dget r ''history'' (JList []) = JList h" "uid = user_id_str msg"
  shows "chat_response env msg w = fst (call_gemini_for_chat env (msg_text msg) (JList h) w)"
  using assms by (simp add: chat_response_def history_of_def)

text \<open>The record that line 285 reads, given the record that was there before line 284.\<close>

lemma record_after_creation:
  assumes "dget s uid (JDict []) = JDict r"
  shows "\<exists>r1. dget (if map_of s uid = None
                    then AList.update uid (JDict [(''history'', JList [])]) s else s) uid JNull
               = JDict r1
             \<and> dget r1 ''history'' (JList []) = dget r ''history'' (JList [])
             \<and> AList.update ''history'' x r1 = AList.update ''history'' x r
             \<and> map_of r1 ''last_complaint'' = map_of r ''last_complaint''"
proof (cases "map_of s uid")
  case None
  then have "r = []" using assms by (simp add: dget_def)
  then show ?thesis using None by (simp add: dget_update_same) (simp add: dget_def)
next
  case (Some v)
  then show ?thesis using assms by (simp add: dget_def)
qed


lemma handle_chat_written:
  assumes "chat_remembered env msg w"
    and "bot_user_data w = JDict s"
    and "dget s (user_id_str msg) (JDict []) = JDict r"
  shows "bot_user_data (snd (handle_chat env msg w)) =
           JDict (AList.update (user_id_str msg)
             (JDict (AList.update ''history''
                (JList (last_n CHAT_HISTORY_LIMIT
                   (history_of (user_id_str msg) (bot_user_data w)
                    @ [user_turn (msg_text msg), model_turn (chat_response env msg w)]))) r)) s)
       \<and> user_data_file (snd (handle_chat env msg w)) =
           Document (bot_user_data (snd (handle_chat env msg w)))
       \<and> fst (handle_chat env msg w) = Inr ()"
proof -
  define uid where "uid = user_id_str msg"
  have usable: "usable_for uid (bot_user_data w)"
    and ok: "\<not> py_in WARNING_ICON (chat_response env msg w)"
    using assms(1) by (simp_all add: chat_remembered_def uid_def)
  from usable obtain h where h: "dget r ''history'' (JList []) = JList h"
    "history_of uid (bot_user_data w) = h"
    using assms(2,3) by (auto simp: uid_def elim!: usable_forD)
  define s1 where "s1 = (if map_of s uid = None
               then AList.update uid (JDict [(''history'', JList [])]) s else s)"
  define x where "x = JList (last_n CHAT_HISTORY_LIMIT
      (h @ [user_turn (msg_text msg), model_turn (chat_response env msg w)]))"
  from record_after_creation [OF assms(3) [folded uid_def], of x] obtain r1 where
    r1: "dget s1 uid JNull = JDict r1" "dget r1 ''history'' (JList []) = JList h"
      "AList.update ''history'' x r1 = AList.update ''history'' x r"
    unfolding s1_def using h(1) by auto
  have resp: "fst (call_gemini_for_chat env (msg_text msg) (JList h) w) = chat_response env msg w"
    using chat_response_eq [OF assms(2) assms(3) h(1) refl] by simp
  have s1: "AList.update uid v s1 = AList.update uid v s" for v
    by (simp add: s1_def)
  have hc: "handle_chat env msg w =
      (Inr (), logged uid ''CHAT_MESSAGE''
         (save_user_data (JDict (AList.update uid (JDict (AList.update ''history'' x r)) s))
            ((send_safe_reply env msg (chat_response env msg w) None
               (snd (call_gemini_for_chat env (msg_text msg) (JList h)
                  (w\<lparr>bot_user_data := JDict s1\<rparr>))))
             \<lparr>bot_user_data := JDict (AList.update uid (JDict (AList.update ''history'' x r)) s)\<rparr>)))"
    using handle_chat_record [OF assms(2) r1(1) [unfolded uid_def] s1_def [unfolded uid_def], of env]
      ok
    by (simp add: Let_def r1(2) r1(3) resp uid_def [symmetric] x_def [symmetric] s1)
  show ?thesis
    by (simp add: hc save_user_data_def x_def h(2) [unfolded uid_def] uid_def)
qed


lemma created_store:
  assumes "bot_user_data w = JDict s" and "dget s uid (JDict []) = JDict r"
  shows "JDict (if map_of s uid = None
               then AList.update uid (JDict [(''history'', JList [])]) s else s) =
           (if usable_for uid (bot_user_data w) \<and> \<not> has_record uid (bot_user_data w)
            then with_empty_record uid (bot_user_data w) else bot_user_data w)"
proof (cases "map_of s uid")
  case None
  then have "r = []" using assms(2) by (simp add: dget_def)
  then show ?thesis
    using None assms
    by (simp add: has_record_def with_empty_record_def usable_for_def dget_def)
next
  case (Some v)
  then show ?thesis using assms(1) by (simp add: has_record_def)
qed

lemma handle_chat_forgotten_record:
  assumes "\<not> chat_remembered env msg w"
    and "bot_user_data w = JDict s"
    and "dget s (user_id_str msg) (JDict []) = JDict r"
  shows "user_data_file (snd (handle_chat env msg w)) = user_data_file w
       \<and> bot_user_data (snd (handle_chat env msg w)) =
           (if usable_for (user_id_str msg) (bot_user_data w)
               \<and> \<not> has_record (user_id_str msg) (bot_user_data w)
            then with_empty_record (user_id_str msg) (bot_user_data w)
            else bot_user_data w)"
proof -
  define uid where "uid = user_id_str msg"
  define s1 where "s1 = (if map_of s uid = None
             then AList.update uid (JDict [(''history'', JList [])]) s else s)"
  from record_after_creation [OF assms(3) [folded uid_def], of JNull] obtain r1 where
    r1: "dget s1 uid JNull = JDict r1"
      "dget r1 ''history'' (JList []) = dget r ''history'' (JList [])"
    unfolding s1_def by auto
  note hc = handle_chat_record [OF assms(2) r1(1) [unfolded uid_def] s1_def [unfolded uid_def], of env]
  have usable: "usable_for uid (bot_user_data w) = (\<exists>h. dget r ''history'' (JList []) = JList h)"
    using assms(2,3) by (auto simp: usable_for_def uid_def split: json.splits)
  note store = created_store [OF assms(2) assms(3) [folded uid_def], folded s1_def]
  show ?thesis
  proof (cases "\<exists>h. dget r ''history'' (JList []) = JList h")
    case True
    then obtain h where h: "dget r ''history'' (JList []) = JList h" by blast
    have "chat_response env msg w = fst (call_gemini_for_chat env (msg_text msg) (JList h) w)"
      using chat_response_eq [OF assms(2) assms(3) h refl] .
    moreover have "py_in WARNING_ICON (chat_response env msg w)"
      using assms(1) usable True by (simp add: chat_remembered_def uid_def)
    ultimately show ?thesis
      using store by (simp add: hc Let_def r1(2) h uid_def [symmetric])
  next
    case False
    then show ?thesis
      using store
      by (cases "dget r ''history'' (JList [])")
        (simp_all add: hc Let_def r1(2) uid_def [symmetric])
  qed
qed

lemma handle_chat_forgotten:
  assumes "\<not> chat_remembered env msg w"
  shows "user_data_file (snd (handle_chat env msg w)) = user_data_file w
       \<and> bot_user_data (snd (handle_chat env msg w)) =
           (if usable_for (user_id_str msg) (bot_user_data w)
               \<and> \<not> has_record (user_id_str msg) (bot_user_data w)
            then with_empty_record (user_id_str msg) (bot_user_data w)
            else bot_user_data w)"
proof (cases "\<exists>s. bot_user_data w = JDict s")
  case False
  then have "\<not> usable_for (user_id_str msg) (bot_user_data w)"
    by (cases "bot_user_data w") (simp_all add: usable_for_def)
  then show ?thesis
    using handle_chat_not_dict [of w env msg] False by simp
next
  case True
  then obtain s where s: "bot_user_data w = JDict s" by blast
  show ?thesis
  proof (cases "\<exists>r. dget s (user_id_str msg) (JDict []) = JDict r")
    case True
    then show ?thesis
      using handle_chat_forgotten_record [OF assms s] by blast
  next
    case False
    then obtain v where v: "map_of s (user_id_str msg) = Some v" "\<And>r. v \<noteq> JDict r"
      by (auto simp: dget_def split: option.splits)
    have "\<not> usable_for (user_id_str msg) (bot_user_data w)"
      using s False by (auto simp: usable_for_def split: json.splits)
    then show ?thesis
      using handle_chat_record_not_dict [OF s v, of env] by simp
  qed
qed




lemma last_complaint_of_update_history:
  "dget s uid (JDict []) = JDict r \<Longrightarrow>
   last_complaint_of k (JDict (AList.update uid (JDict (AList.update ''history'' x r)) s))
     = last_complaint_of k (JDict s)"
  by (cases "k = uid")
    (simp_all add: last_complaint_of_def dget_update_same dget_update_other update_conv')

lemma with_empty_record_reads:
  "\<not> has_record uid store \<Longrightarrow>
   history_of k (with_empty_record uid store) = history_of k store
   \<and> last_complaint_of k (with_empty_record uid store) = last_complaint_of k store"
  by (cases store; cases "k = uid")
    (simp_all add: with_empty_record_def has_record_def history_of_def last_complaint_of_def
      dget_update_same dget_update_other, simp_all add: dget_def)











section \<open>The user data after an analysis\<close>

lemma edit_then_log_fields:
  "bot_user_data (snd (case bot_edit_message_text env t m mode w of
       (Inl e, w3) \<Rightarrow> (Inl e, w3)
     | (Inr u, w3) \<Rightarrow> (Inr (), logged a b w3))) = bot_user_data w"
  "user_data_file (snd (case bot_edit_message_text env t m mode w of
       (Inl e, w3) \<Rightarrow> (Inl e, w3)
     | (Inr u, w3) \<Rightarrow> (Inr (), logged a b w3))) = user_data_file w"
  by (simp_all add: bot_edit_message_text_def telegram_api_def Let_def logged_def)

lemma get_result_color_dict:
  "get_result_color bi j = Inr color \<Longrightarrow> \<exists>d. j = JDict d"
  by (cases j) (simp_all add: get_result_color_def)

lemma record_red_flag_alt:
  "record_red_flag env uid content (JDict d) reply_text w =
     (case set_last_complaint (bot_user_data w) uid (complaint_text (py env) content d) of
        Inl e \<Rightarrow> (Inl e, w)
      | Inr store \<Rightarrow>
          (Inr (reply_text @ ACTION_TEXT), save_user_data store (w\<lparr>bot_user_data := store\<rparr>)))"
  by (simp add: record_red_flag_def)

text \<open>
  The user data after the body of the \<^verbatim>\<open>try\<close>, for each way the body can go.
\<close>

lemma run_analysis_try_user_data:
  assumes c: "call_gemini_for_structured_analysis env content img w = (Inr j, w2)"
  shows "bot_user_data (snd (run_analysis_try env msg content img m w)) =
           (case format_analysis_reply (py env) j of
              Inl e \<Rightarrow> bot_user_data w
            | Inr reply_text \<Rightarrow>
                (case get_result_color (py env) j of
                   Inl e \<Rightarrow> bot_user_data w
                 | Inr color \<Rightarrow>
                     (case j of
                        JDict d \<Rightarrow>
                          if color = ''RED''
                          then (case set_last_complaint (bot_user_data w) (user_id_str msg)
                                       (complaint_text (py env) content d) of
                                  Inr store \<Rightarrow> store
                                | Inl e \<Rightarrow> bot_user_data w)
                          else bot_user_data w
                      | _ \<Rightarrow> bot_user_data w)))
       \<and> user_data_file (snd (run_analysis_try env msg content img m w)) =
           (case format_analysis_reply (py env) j of
              Inl e \<Rightarrow> user_data_file w
            | Inr reply_text \<Rightarrow>
                (case get_result_color (py env) j of
                   Inl e \<Rightarrow> user_data_file w
                 | Inr color \<Rightarrow>
                     (case j of
                        JDict d \<Rightarrow>
                          if color = ''RED''
                          then (case set_last_complaint (bot_user_data w) (user_id_str msg)
                                       (complaint_text (py env) content d) of
                                  Inr store \<Rightarrow> Document store
                                | Inl e \<Rightarrow> user_data_file w)
                          else user_data_file w
                      | _ \<Rightarrow> user_data_file w)))"
proof -
  have w2: "bot_user_data w2 = bot_user_data w" "user_data_file w2 = user_data_file w"
    using call_gemini_for_structured_analysis_fields(1,2) [of env content img w] c by simp_all
  show ?thesis
  proof (cases "format_analysis_reply (py env) j")
    case (Inl e)
    then show ?thesis by (simp add: run_analysis_try_def c w2)
  next
    case f: (Inr reply_text)
    show ?thesis
    proof (cases "get_result_color (py env) j")
      case (Inl e)
      then show ?thesis by (simp add: run_analysis_try_def c f w2)
    next
      case col: (Inr color)
      then obtain d where d: "j = JDict d"
        using get_result_color_dict by blast
      note c = c [unfolded d] and f = f [unfolded d] and col = col [unfolded d]
      show ?thesis
      proof (cases "color = ''RED''")
        case False
        then show ?thesis
          using edit_then_log_fields
            [where env = env and t = reply_text and m = m and mode = "Some ''Markdown''" and w = w2]
          by (simp add: run_analysis_try_def c f col w2 d)
      next
        case True
        show ?thesis
        proof (cases "set_last_complaint (bot_user_data w) (user_id_str msg)
                        (complaint_text (py env) content d)")
          case (Inl e)
          then show ?thesis
            by (simp add: run_analysis_try_def c f col w2 d True record_red_flag_alt)
        next
          case (Inr store)
          then show ?thesis
            using edit_then_log_fields
              [where env = env and t = "reply_text @ ACTION_TEXT" and m = m
                and mode = "Some ''Markdown''"
                and w = "save_user_data store (w2\<lparr>bot_user_data := store\<rparr>)"]
            by (simp add: run_analysis_try_def c f col w2 d True record_red_flag_alt
                save_user_data_def)
        qed
      qed
    qed
  qed
qed


lemma run_analysis_try_raised:
  assumes "call_gemini_for_structured_analysis env content img w = (Inl e, w2)"
  shows "run_analysis_try env msg content img m w = (Inl e, w2)"
  by (simp add: run_analysis_try_def assms)

lemma run_analysis_fields_from_try:
  assumes "bot_reply_to env msg ANALYZING_TEXT None w = (Inr m, w1)"
  shows "bot_user_data (snd (run_analysis env msg content img w)) =
           bot_user_data (snd (run_analysis_try env msg content img m w1))"
    and "user_data_file (snd (run_analysis env msg content img w)) =
           user_data_file (snd (run_analysis_try env msg content img m w1))"
  using assms
  by (simp_all add: run_analysis_def case_prod_beta split: sum.splits)

lemma classified_alt:
  assumes "bot_reply_to env msg ANALYZING_TEXT None w = (Inr m, w1)"
    and "call_gemini_for_structured_analysis env content img w1 = (Inr j, w2)"
  shows "classified env msg content img w =
           (case format_analysis_reply (py env) j of
              Inl e \<Rightarrow> None
            | Inr reply_text \<Rightarrow>
                (case get_result_color (py env) j of
                   Inl e \<Rightarrow> None
                 | Inr color \<Rightarrow> Some (color, j)))"
  using assms by (simp add: classified_def)

lemma run_analysis_user_data:
  "bot_user_data (snd (run_analysis env msg content img w)) =
     (case red_flag_store env msg content img w of
        Some store \<Rightarrow> store | None \<Rightarrow> bot_user_data w)
   \<and> user_data_file (snd (run_analysis env msg content img w)) =
     (case red_flag_store env msg content img w of
        Some store \<Rightarrow> Document store | None \<Rightarrow> user_data_file w)"
proof (cases "telegram env (length (telegram_calls w)) (ReplyTo msg ANALYZING_TEXT None)")
  case False
  then have b: "bot_reply_to env msg ANALYZING_TEXT None w =
      (Inl ApiTelegramException, snd (bot_reply_to env msg ANALYZING_TEXT None w))"
    by (simp add: bot_reply_to_def telegram_api_def Let_def)
  have "classified env msg content img w = None"
    by (subst classified_def, subst b) simp
  then have "red_flag_store env msg content img w = None"
    by (simp add: red_flag_store_def)
  moreover have "run_analysis env msg content img w =
      (Inl ApiTelegramException, snd (bot_reply_to env msg ANALYZING_TEXT None w))"
    by (subst run_analysis_def, subst b) simp
  ultimately show ?thesis by simp
next
  case True
  define w1 where "w1 = snd (bot_reply_to env msg ANALYZING_TEXT None w)"
  define m where "m = length (telegram_calls w)"
  have b: "bot_reply_to env msg ANALYZING_TEXT None w = (Inr m, w1)"
    using True by (simp add: bot_reply_to_def telegram_api_def Let_def w1_def m_def)
  have w1: "bot_user_data w1 = bot_user_data w" "user_data_file w1 = user_data_file w"
    by (simp_all add: w1_def)
  note r = run_analysis_fields_from_try [OF b, of content img]
  obtain res w2 where p: "call_gemini_for_structured_analysis env content img w1 = (res, w2)"
    by (cases "call_gemini_for_structured_analysis env content img w1") blast
  show ?thesis
  proof (cases res)
    case (Inl e)
    then have c: "call_gemini_for_structured_analysis env content img w1 = (Inl e, w2)"
      using p by simp
    have w2: "bot_user_data w2 = bot_user_data w1" "user_data_file w2 = user_data_file w1"
      using call_gemini_for_structured_analysis_fields(1,2) [of env content img w1] c by simp_all
    have "classified env msg content img w = None"
      by (simp add: classified_def b c)
    then have "red_flag_store env msg content img w = None"
      by (simp add: red_flag_store_def)
    then show ?thesis
      unfolding r by (simp add: run_analysis_try_raised [OF c] w2 w1)
  next
    case (Inr j)
    then have c: "call_gemini_for_structured_analysis env content img w1 = (Inr j, w2)"
      using p by simp
    note t = run_analysis_try_user_data [OF c, of msg m, unfolded w1]
    note cl = classified_alt [OF b c]
    show ?thesis
      unfolding r red_flag_store_def cl
      using t by (auto split: sum.splits json.splits)
  qed
qed

lemma analysis_failed_not_classified:
  "analysis_failed env msg content img w \<Longrightarrow> classified env msg content img w = None"
  by (auto simp: analysis_failed_def classified_def split: prod.splits sum.splits)


lemma red_flag_storeD:
  assumes "red_flag_store env msg content img w = Some store"
  shows "\<exists>d. classified env msg content img w = Some (''RED'', JDict d)
           \<and> set_last_complaint (bot_user_data w) (user_id_str msg)
                 (complaint_text (py env) content d) = Inr store"
  using assms
  by (auto simp: red_flag_store_def split: option.splits prod.splits json.splits if_splits sum.splits)

lemma red_flag_store_not_red:
  "map_option fst (classified env msg content img w) \<noteq> Some ''RED'' \<Longrightarrow>
   red_flag_store env msg content img w = None"
  by (cases "red_flag_store env msg content img w") (auto dest: red_flag_storeD)

lemma red_flag_store_red:
  assumes "classified env msg content img w = Some (''RED'', JDict d)"
    and "set_last_complaint (bot_user_data w) (user_id_str msg)
           (complaint_text (py env) content d) = Inr store"
  shows "red_flag_store env msg content img w = Some store"
  using assms by (simp add: red_flag_store_def)

text \<open>What line 187 does to the store.\<close>

lemma set_last_complaint_writable:
  "writable_for uid store \<Longrightarrow> \<exists>store'. set_last_complaint store uid t = Inr store'"
  by (auto simp: writable_for_def set_last_complaint_def split: json.splits)

lemma set_last_complaint_reads:
  assumes "set_last_complaint store uid t = Inr store'"
  shows "last_complaint_of uid store' = Some (JStr t)"
    and "k \<noteq> uid \<Longrightarrow> last_complaint_of k store' = last_complaint_of k store"
    and "history_of k store' = history_of k store"
    and "usable_for k store' = usable_for k store"
    and "writable_for k store' = writable_for k store"
proof -
  from assms obtain s r where s: "store = JDict s" "dget s uid (JDict []) = JDict r"
    "store' = JDict (AList.update uid (JDict (AList.update ''last_complaint'' (JStr t) r)) s)"
    by (auto simp: set_last_complaint_def split: json.splits)
  show "last_complaint_of uid store' = Some (JStr t)"
    by (simp add: s last_complaint_of_def dget_update_same update_conv')
  show "k \<noteq> uid \<Longrightarrow> last_complaint_of k store' = last_complaint_of k store"
    by (simp add: s last_complaint_of_def dget_update_other)
  have h: "dget (AList.update ''last_complaint'' (JStr t) r) ''history'' dflt = dget r ''history'' dflt"
    for dflt
    by (simp add: dget_update_other)
  show "history_of k store' = history_of k store"
    using s(2) by (cases "k = uid") (simp_all add: s(1,3) history_of_def dget_update_same dget_update_other h)
  show "usable_for k store' = usable_for k store"
    using s(2) by (cases "k = uid") (simp_all add: s(1,3) usable_for_def dget_update_same dget_update_other h)
  show "writable_for k store' = writable_for k store"
    using s(2) by (cases "k = uid") (simp_all add: s(1,3) writable_for_def dget_update_same dget_update_other)
qed

lemma run_analysis_reads:
  "history_of k (bot_user_data (snd (run_analysis env msg content img w))) =
     history_of k (bot_user_data w)"
  "usable_for k (bot_user_data (snd (run_analysis env msg content img w))) =
     usable_for k (bot_user_data w)"
  "k \<noteq> user_id_str msg \<Longrightarrow>
   last_complaint_of k (bot_user_data (snd (run_analysis env msg content img w))) =
     last_complaint_of k (bot_user_data w)"
  "last_complaint_of k (bot_user_data (snd (run_analysis env msg content img w))) =
     last_complaint_of k (bot_user_data w)
   \<or> (\<exists>d. last_complaint_of k (bot_user_data (snd (run_analysis env msg content img w))) =
          Some (JStr (complaint_text (py env) content d)))"
proof -
  note u = run_analysis_user_data [of env msg content img w, THEN conjunct1]
  show "history_of k (bot_user_data (snd (run_analysis env msg content img w))) =
     history_of k (bot_user_data w)"
    unfolding u
    by (cases "red_flag_store env msg content img w")
      (auto dest!: red_flag_storeD simp: set_last_complaint_reads)
  show "usable_for k (bot_user_data (snd (run_analysis env msg content img w))) =
     usable_for k (bot_user_data w)"
    unfolding u
    by (cases "red_flag_store env msg content img w")
      (auto dest!: red_flag_storeD simp: set_last_complaint_reads)
  show "k \<noteq> user_id_str msg \<Longrightarrow>
   last_complaint_of k (bot_user_data (snd (run_analysis env msg content img w))) =
     last_complaint_of k (bot_user_data w)"
    unfolding u
    by (cases "red_flag_store env msg content img w")
      (auto dest!: red_flag_storeD simp: set_last_complaint_reads)
  show "last_complaint_of k (bot_user_data (snd (run_analysis env msg content img w))) =
     last_complaint_of k (bot_user_data w)
   \<or> (\<exists>d. last_complaint_of k (bot_user_data (snd (run_analysis env msg content img w))) =
          Some (JStr (complaint_text (py env) content d)))"
    unfolding u
    by (cases "red_flag_store env msg content img w"; cases "k = user_id_str msg")
      (auto dest!: red_flag_storeD simp: set_last_complaint_reads)
qed

lemma complaint_text_holds: "truthy (JStr (complaint_text bi content d))"
  by (simp add: truthy_def complaint_text_def)

lemma run_analysis_complaint:
  "last_complaint_of k (bot_user_data (snd (run_analysis env msg content img w))) =
     last_complaint_of k (bot_user_data w)
   \<or> holds_complaint k (bot_user_data (snd (run_analysis env msg content img w)))"
  using run_analysis_reads(4) [of k env msg content img w]
  by (auto simp: holds_complaint_def complaint_text_holds)


section \<open>The user data after any update\<close>

lemma fetch_photo_fields [simp]:
  "bot_user_data (snd (fetch_photo env msg w)) = bot_user_data w"
  "user_data_file (snd (fetch_photo env msg w)) = user_data_file w"
  by (simp_all add: fetch_photo_def Let_def split: option.splits)

lemma call_gemini_for_image_description_fields [simp]:
  "bot_user_data (snd (call_gemini_for_image_description env img caption w)) = bot_user_data w"
  "user_data_file (snd (call_gemini_for_image_description env img caption w)) = user_data_file w"
  by (simp_all add: call_gemini_for_image_description_def generate_content_def
      split: gemini_outcome.splits)

lemma send_welcome_fields [simp]:
  "bot_user_data (snd (send_welcome env msg w)) = bot_user_data w"
  "user_data_file (snd (send_welcome env msg w)) = user_data_file w"
  by (simp_all add: send_welcome_def)

lemma complaint_cmd_fields [simp]:
  "bot_user_data (snd (complaint_cmd env msg w)) = bot_user_data w"
  "user_data_file (snd (complaint_cmd env msg w)) = user_data_file w"
  by (simp_all add: complaint_cmd_def Let_def split: json.splits)

lemma run_analysis_result:
  "fst (run_analysis env msg content img w) = Inr ()
   \<or> fst (run_analysis env msg content img w) = Inl ApiTelegramException"
  by (simp add: run_analysis_alt bot_reply_to_result bot_edit_message_text_result
      split: sum.splits)

lemma search_command_world:
  "snd (search_command env msg w) =
     snd (run_analysis env msg
            (case after_first_space (msg_text msg) of Inl e \<Rightarrow> [] | Inr rest \<Rightarrow> rest) None w)"
proof (cases "after_first_space (msg_text msg)")
  case (Inl e)
  then have "e = IndexError"
    by (simp add: after_first_space_def split: if_splits)
  then show ?thesis using Inl by (simp add: search_command_def)
next
  case (Inr rest)
  then show ?thesis
    using run_analysis_result [of env msg rest None w]
    by (auto simp: search_command_def case_prod_beta split: sum.splits)
qed

lemma photo_describe_fields:
  "bot_user_data (snd (photo_describe_try env msg caption m w)) = bot_user_data w"
  "user_data_file (snd (photo_describe_try env msg caption m w)) = user_data_file w"
  by (simp_all add: photo_describe_try_def case_prod_beta split: sum.splits)

text \<open>
  The user data after a photo: untouched, or what the analysis of its caption and image
  leaves, started in a state with the same user data.
\<close>

lemma handle_photo_world:
  "same_user_data w (snd (handle_photo env msg w))
   \<or> (\<exists>content img w0. same_user_data w w0
         \<and> same_user_data (snd (run_analysis env msg content img w0)) (snd (handle_photo env msg w)))"
proof (cases "startswith (py_lower (py_strip (case msg_caption msg of None \<Rightarrow> [] | Some c \<Rightarrow> c))) ''/search''")
  case False
  then have "same_user_data w (snd (handle_photo env msg w))"
    by (simp add: handle_photo_def Let_def same_user_data_def case_prod_beta
        photo_describe_fields split: sum.splits)
  then show ?thesis ..
next
  case True
  define caption where "caption = (case msg_caption msg of None \<Rightarrow> [] | Some c \<Rightarrow> c)"
  define content where
    "content = (case after_first_space caption of Inr rest \<Rightarrow> rest | Inl e \<Rightarrow> [])"
  show ?thesis
  proof (cases "fst (fetch_photo env msg w)")
    case (Inl e)
    then have "same_user_data w (snd (handle_photo env msg w))"
      using True
      by (simp add: handle_photo_def Let_def same_user_data_def case_prod_beta
          photo_search_try_def)
    then show ?thesis ..
  next
    case (Inr img)
    then have "same_user_data (snd (run_analysis env msg content (Some img) (snd (fetch_photo env msg w))))
        (snd (handle_photo env msg w))"
      using True
      by (simp add: handle_photo_def Let_def same_user_data_def case_prod_beta
          photo_search_try_def content_def caption_def split: sum.splits)
    moreover have "same_user_data w (snd (fetch_photo env msg w))"
      by (simp add: same_user_data_def)
    ultimately show ?thesis by blast
  qed
qed


lemma handle_chat_complaints:
  "last_complaint_of k (bot_user_data (snd (handle_chat env msg w))) =
     last_complaint_of k (bot_user_data w)"
proof (cases "chat_remembered env msg w")
  case True
  then have "usable_for (user_id_str msg) (bot_user_data w)"
    by (simp add: chat_remembered_def)
  then obtain s r where s: "bot_user_data w = JDict s"
    "dget s (user_id_str msg) (JDict []) = JDict r"
    by (auto elim: usable_forD)
  from handle_chat_written [OF True s] show ?thesis
    by (simp add: last_complaint_of_update_history [OF s(2)] s(1))
next
  case False
  from handle_chat_forgotten [OF False] show ?thesis
    by (simp add: with_empty_record_reads)
qed


lemma same_user_data_reads:
  "same_user_data w w' \<Longrightarrow> bot_user_data w' = bot_user_data w"
  by (simp add: same_user_data_def)

lemma handle_update_complaints:
  "last_complaint_of k (bot_user_data (snd (handle_update env u w))) =
     last_complaint_of k (bot_user_data w)
   \<or> holds_complaint k (bot_user_data (snd (handle_update env u w)))"
proof (cases u)
  case (StartCommand msg)
  then show ?thesis by (simp add: handle_update_def)
next
  case (SearchCommand msg)
  then show ?thesis
    using run_analysis_complaint [of k env msg _ None w]
    by (simp add: handle_update_def search_command_world)
next
  case (ComplaintCommand msg)
  then show ?thesis by (simp add: handle_update_def)
next
  case (Photo msg)
  from handle_photo_world [of w env msg] show ?thesis
  proof
    assume "same_user_data w (snd (handle_photo env msg w))"
    then show ?thesis using Photo
      by (simp add: handle_update_def same_user_data_def)
  next
    assume "\<exists>content img w0. same_user_data w w0
         \<and> same_user_data (snd (run_analysis env msg content img w0)) (snd (handle_photo env msg w))"
    then obtain content img w0 where
      a: "bot_user_data w0 = bot_user_data w"
      and b: "bot_user_data (snd (handle_photo env msg w)) =
              bot_user_data (snd (run_analysis env msg content img w0))"
      by (auto simp: same_user_data_def)
    show ?thesis
      using Photo run_analysis_complaint [of k env msg content img w0]
      by (simp add: handle_update_def a b)
  qed
next
  case (TextMessage msg)
  then show ?thesis by (simp add: handle_update_def handle_chat_complaints)
qed

lemma handle_update_holds_complaint:
  assumes "holds_complaint k (bot_user_data w)"
  shows "holds_complaint k (bot_user_data (snd (handle_update env u w)))"
  using handle_update_complaints [of k env u w] assms
  by (auto simp: holds_complaint_def)


section \<open>Complaints\<close>

lemma red_analysis_records:
  assumes "writable_for (user_id_str msg) (bot_user_data w)"
    and "classified env msg content img w = Some (''RED'', JDict d)"
  shows "last_complaint_of (user_id_str msg)
           (bot_user_data (snd (run_analysis env msg content img w))) =
           Some (JStr (complaint_text (py env) content d))"
    and "user_data_file (snd (run_analysis env msg content img w)) =
           Document (bot_user_data (snd (run_analysis env msg content img w)))"
    and "writable_for (user_id_str msg) (bot_user_data (snd (run_analysis env msg content img w)))"
proof -
  from set_last_complaint_writable [OF assms(1)] obtain store where
    st: "set_last_complaint (bot_user_data w) (user_id_str msg)
           (complaint_text (py env) content d) = Inr store"
    by blast
  have r: "red_flag_store env msg content img w = Some store"
    using red_flag_store_red [OF assms(2) st] .
  have u: "bot_user_data (snd (run_analysis env msg content img w)) = store"
    "user_data_file (snd (run_analysis env msg content img w)) = Document store"
    using run_analysis_user_data [of env msg content img w] by (simp_all add: r)
  show "last_complaint_of (user_id_str msg)
           (bot_user_data (snd (run_analysis env msg content img w))) =
           Some (JStr (complaint_text (py env) content d))"
    by (simp add: u set_last_complaint_reads(1) [OF st])
  show "user_data_file (snd (run_analysis env msg content img w)) =
           Document (bot_user_data (snd (run_analysis env msg content img w)))"
    by (simp add: u)
  show "writable_for (user_id_str msg) (bot_user_data (snd (run_analysis env msg content img w)))"
    using assms(1) by (simp add: u set_last_complaint_reads(5) [OF st])
qed

text \<open>
  Claim C7. An analysis request changes the user data, in memory or in the file, only when
  it was classified red. A request classified green or yellow leaves both as they were, and
  so does a request that never gets a colour: the placeholder is refused, the call of line
  183 raises (a failed analysis in the sense of the specification), or the verdict cannot be
  formatted or classified. No analysis touches the complaint of another user. No update of
  any kind clears a complaint: after the update the value under \<^verbatim>\<open>last_complaint\<close> of every
  user is the value from before, or it is a complaint that \<^verbatim>\<open>/complaint\<close> would send, and
  a user for whom \<^verbatim>\<open>/complaint\<close> would send a complaint before the update is still one
  after it. A request classified red on a writable store does record its complaint and
  rewrites the file.
\<close>

theorem user_data_changes_only_on_red:
  "(map_option fst (classified env msg content img w) \<noteq> Some ''RED'' \<longrightarrow>
      same_user_data w (snd (run_analysis env msg content img w)))
   \<and> (analysis_failed env msg content img w \<longrightarrow>
        same_user_data w (snd (run_analysis env msg content img w)))
   \<and> (k \<noteq> user_id_str msg \<longrightarrow>
        last_complaint_of k (bot_user_data (snd (run_analysis env msg content img w))) =
          last_complaint_of k (bot_user_data w))
   \<and> (last_complaint_of k (bot_user_data (snd (handle_update env u w))) =
         last_complaint_of k (bot_user_data w)
       \<or> holds_complaint k (bot_user_data (snd (handle_update env u w))))
   \<and> (holds_complaint k (bot_user_data w) \<longrightarrow>
        holds_complaint k (bot_user_data (snd (handle_update env u w))))
   \<and> (writable_for (user_id_str msg) (bot_user_data w)
        \<and> classified env msg content img w = Some (''RED'', JDict d) \<longrightarrow>
        last_complaint_of (user_id_str msg)
          (bot_user_data (snd (run_analysis env msg content img w))) =
          Some (JStr (complaint_text (py env) content d))
        \<and> user_data_file (snd (run_analysis env msg content img w)) =
            Document (bot_user_data (snd (run_analysis env msg content img w))))"
proof -
  have n: "map_option fst (classified env msg content img w) \<noteq> Some ''RED'' \<Longrightarrow>
      same_user_data w (snd (run_analysis env msg content img w))"
    using run_analysis_user_data [of env msg content img w]
    by (simp add: red_flag_store_not_red same_user_data_def)
  have f: "analysis_failed env msg content img w \<Longrightarrow>
      same_user_data w (snd (run_analysis env msg content img w))"
    using n by (simp add: analysis_failed_not_classified)
  show ?thesis
    using n f run_analysis_reads(3) [of k msg env content img w]
      handle_update_complaints [of k env u w]
      handle_update_holds_complaint [of k w env u]
      red_analysis_records(1,2) [of msg w env content img d]
    by blast
qed


lemma down_classified:
  "classified model_down alice ''Win a free iPhone'' None fresh = Some (''YELLOW'', AI_ERROR_VERDICT)"
  by code_simp

lemma log_down_failed: "analysis_failed log_down alice ''Win a free iPhone'' None fresh"
  by code_simp

lemma scam_classified:
  "classified (answering ''{}'' (Some scam_verdict)) alice ''Win a free iPhone'' None fresh =
     Some (''RED'', scam_verdict)"
  by code_simp

lemma alice_uid: "user_id_str alice = ''7''"
  by (simp add: user_id_str_def alice_def str_int_def str_nat.simps digit_char_def)

lemma fresh_writable: "writable_for uid (bot_user_data fresh)"
  by (simp add: writable_for_def fresh_def dget_def)

lemma scam_complaint:
  "complaint_text bi ''Win a free iPhone'' scam_fields =
   ''Content: Win a free iPhone'' @ NL @ NL @ ''AI Analysis: Lottery scam''"
  by (simp add: complaint_text_def dget_def py_fmt_def scam_fields_def)

theorem user_data_changes_only_on_red_witness:
  "classified model_down alice ''Win a free iPhone'' None fresh = Some (''YELLOW'', AI_ERROR_VERDICT)
   \<and> same_user_data fresh (snd (run_analysis model_down alice ''Win a free iPhone'' None fresh))
   \<and> analysis_failed log_down alice ''Win a free iPhone'' None fresh
   \<and> same_user_data fresh (snd (run_analysis log_down alice ''Win a free iPhone'' None fresh))
   \<and> last_complaint_of ''8''
         (bot_user_data (snd (run_analysis (answering ''{}'' (Some scam_verdict)) alice
            ''Win a free iPhone'' None fresh))) =
       last_complaint_of ''8'' (bot_user_data fresh)
   \<and> last_complaint_of ''7''
         (bot_user_data (snd (run_analysis (answering ''{}'' (Some scam_verdict)) alice
            ''Win a free iPhone'' None fresh))) =
       Some (JStr (''Content: Win a free iPhone'' @ NL @ NL @ ''AI Analysis: Lottery scam''))
   \<and> holds_complaint ''7''
         (bot_user_data (snd (run_analysis (answering ''{}'' (Some scam_verdict)) alice
            ''Win a free iPhone'' None fresh)))
   \<and> holds_complaint ''7''
         (bot_user_data (snd (handle_update (answering ''{}'' (Some scam_verdict))
            (TextMessage (alice_says ''hi''))
            (snd (run_analysis (answering ''{}'' (Some scam_verdict)) alice
               ''Win a free iPhone'' None fresh)))))"
proof -
  let ?env = "answering ''{}'' (Some scam_verdict)"
  let ?w = "snd (run_analysis ?env alice ''Win a free iPhone'' None fresh)"
  have a: "same_user_data fresh (snd (run_analysis model_down alice ''Win a free iPhone'' None fresh))"
    using user_data_changes_only_on_red
      [where env = model_down and msg = alice and content = "''Win a free iPhone''"
        and img = None and w = fresh and k = "''8''" and u = "StartCommand alice" and d = "[]"]
    by (simp add: down_classified)
  have a2: "same_user_data fresh (snd (run_analysis log_down alice ''Win a free iPhone'' None fresh))"
    using user_data_changes_only_on_red
      [where env = log_down and msg = alice and content = "''Win a free iPhone''"
        and img = None and w = fresh and k = "''8''" and u = "StartCommand alice" and d = "[]"]
      log_down_failed
    by blast
  note t = user_data_changes_only_on_red
      [where env = ?env and msg = alice and content = "''Win a free iPhone''"
        and img = None and w = fresh and k = "''8''" and u = "StartCommand alice"
        and d = scam_fields]
  have cl: "classified ?env alice ''Win a free iPhone'' None fresh = Some (''RED'', JDict scam_fields)"
    using scam_classified by (simp add: scam_verdict_def)
  have b: "last_complaint_of ''8'' (bot_user_data ?w) = last_complaint_of ''8'' (bot_user_data fresh)"
    using t by (simp add: alice_uid)
  have c: "last_complaint_of ''7'' (bot_user_data ?w) =
       Some (JStr (''Content: Win a free iPhone'' @ NL @ NL @ ''AI Analysis: Lottery scam''))"
    using t cl fresh_writable [of "''7''"] scam_complaint [of "py ?env"] by (simp add: alice_uid)
  have h: "holds_complaint ''7'' (bot_user_data ?w)"
    by (simp add: holds_complaint_def c truthy_def)
  have d: "holds_complaint ''7''
         (bot_user_data (snd (handle_update ?env (TextMessage (alice_says ''hi'')) ?w)))"
    using user_data_changes_only_on_red
      [where env = ?env and msg = alice and content = "[]"
        and img = None and w = ?w and k = "''7''" and u = "TextMessage (alice_says ''hi'')"
        and d = "[]"] h
    by blast
  show ?thesis using a a2 b c h d down_classified log_down_failed by blast
qed

text \<open>
  Claim C5. Two analysis requests of one user, one after the other, both classified red, on
  a store writable for the user: after the first the stored complaint is the content and
  reason of the first, after the second it is the content and reason of the second and
  nothing else, the file holds the same store, and \<^verbatim>\<open>/complaint\<close> then sends the second
  complaint.
\<close>

theorem second_red_complaint_replaces_first:
  assumes "writable_for (user_id_str msg1) (bot_user_data w)"
    and "user_id_str msg2 = user_id_str msg1"
    and "user_id_str msg3 = user_id_str msg1"
    and "classified env msg1 content1 img1 w = Some (''RED'', JDict d1)"
    and "classified env msg2 content2 img2 (snd (run_analysis env msg1 content1 img1 w)) =
           Some (''RED'', JDict d2)"
  shows "last_complaint_of (user_id_str msg1)
           (bot_user_data (snd (run_analysis env msg1 content1 img1 w))) =
           Some (JStr (complaint_text (py env) content1 d1))
       \<and> last_complaint_of (user_id_str msg1)
           (bot_user_data (snd (run_analysis env msg2 content2 img2
              (snd (run_analysis env msg1 content1 img1 w))))) =
           Some (JStr (complaint_text (py env) content2 d2))
       \<and> user_data_file (snd (run_analysis env msg2 content2 img2
              (snd (run_analysis env msg1 content1 img1 w)))) =
           Document (bot_user_data (snd (run_analysis env msg2 content2 img2
              (snd (run_analysis env msg1 content1 img1 w)))))
       \<and> telegram_calls (snd (complaint_cmd env msg3
            (snd (run_analysis env msg2 content2 img2
               (snd (run_analysis env msg1 content1 img1 w)))))) =
           telegram_calls (snd (run_analysis env msg2 content2 img2
               (snd (run_analysis env msg1 content1 img1 w))))
           @ [(ReplyTo msg3 (complaint_reply (py env) (JStr (complaint_text (py env) content2 d2)))
                 (Some ''Markdown''),
               telegram env
                 (length (telegram_calls (snd (run_analysis env msg2 content2 img2
                    (snd (run_analysis env msg1 content1 img1 w))))))
                 (ReplyTo msg3 (complaint_reply (py env) (JStr (complaint_text (py env) content2 d2)))
                    (Some ''Markdown'')))]"
proof -
  define w1 where "w1 = snd (run_analysis env msg1 content1 img1 w)"
  define w2 where "w2 = snd (run_analysis env msg2 content2 img2 w1)"
  note first = red_analysis_records [OF assms(1,4), folded w1_def]
  note second = red_analysis_records
    [OF first(3) [folded assms(2)] assms(5) [folded w1_def], folded w2_def, unfolded assms(2)]
  have complaint: "last_complaint_of (user_id_str msg1) (bot_user_data w2) =
      Some (JStr (complaint_text (py env) content2 d2))"
    by (rule second(1))
  then obtain s r where s: "bot_user_data w2 = JDict s"
    "dget s (user_id_str msg1) (JDict []) = JDict r"
    "map_of r ''last_complaint'' = Some (JStr (complaint_text (py env) content2 d2))"
    by (auto simp: last_complaint_of_def split: json.splits)
  have nonempty: "truthy (JStr (complaint_text (py env) content2 d2))"
    by (simp add: truthy_def complaint_text_def)
  have "telegram_calls (snd (complaint_cmd env msg3 w2)) =
      telegram_calls w2
        @ [(ReplyTo msg3 (complaint_reply (py env) (JStr (complaint_text (py env) content2 d2)))
              (Some ''Markdown''),
            telegram env (length (telegram_calls w2))
              (ReplyTo msg3 (complaint_reply (py env) (JStr (complaint_text (py env) content2 d2)))
                 (Some ''Markdown'')))]"
    using nonempty
    by (simp add: complaint_cmd_def s assms(3) Let_def dget_def [of r] send_safe_reply_alt
        split: sum.splits)
  then show ?thesis
    using first(1) second(1,2) unfolding w1_def w2_def by blast
qed


lemma first_of_two_classified:
  "classified two_verdicts alice ''Win a free iPhone'' None fresh = Some (''RED'', JDict scam_fields)"
  by code_simp

lemma second_of_two_classified:
  "classified two_verdicts alice ''Click this link'' None
     (snd (run_analysis two_verdicts alice ''Win a free iPhone'' None fresh)) =
   Some (''RED'', JDict second_fields)"
  by code_simp

lemma second_complaint:
  "complaint_text bi ''Click this link'' second_fields =
   ''Content: Click this link'' @ NL @ NL @ ''AI Analysis: Phishing link''"
  by (simp add: complaint_text_def dget_def py_fmt_def second_fields_def)

theorem second_red_complaint_replaces_first_witness:
  "last_complaint_of ''7''
     (bot_user_data (snd (run_analysis two_verdicts alice ''Win a free iPhone'' None fresh))) =
     Some (JStr (''Content: Win a free iPhone'' @ NL @ NL @ ''AI Analysis: Lottery scam''))
   \<and> last_complaint_of ''7''
     (bot_user_data (snd (run_analysis two_verdicts alice ''Click this link'' None
        (snd (run_analysis two_verdicts alice ''Win a free iPhone'' None fresh))))) =
     Some (JStr (''Content: Click this link'' @ NL @ NL @ ''AI Analysis: Phishing link''))
   \<and> user_data_file (snd (run_analysis two_verdicts alice ''Click this link'' None
        (snd (run_analysis two_verdicts alice ''Win a free iPhone'' None fresh)))) =
     Document (bot_user_data (snd (run_analysis two_verdicts alice ''Click this link'' None
        (snd (run_analysis two_verdicts alice ''Win a free iPhone'' None fresh)))))"
  using second_red_complaint_replaces_first
    [OF fresh_writable refl refl first_of_two_classified second_of_two_classified]
  by (simp add: scam_complaint second_complaint alice_uid)

section \<open>Histories\<close>








end
